theory Spec2Isabelle
  imports Main
begin

section \<open>Single-precision arithmetic\<close>

text \<open>
  The viewport code computes with the C++ type \<^verbatim>\<open>float\<close> (IEEE 754 binary32, round to
  nearest, ties to even). Every finite binary32 number is an integer multiple of
  \<open>2 ^ -149\<close>, so a finite value is represented by that integer: \<open>Fin k\<close> denotes
  \<open>k * 2 ^ -149\<close>. The two zeros are identified (they compare equal), the infinities and
  the not-a-number are kept, so every operation below is total on what the machine type holds.
\<close>

datatype f32 = NaN | NInf | Fin int | PInf

text \<open>Number of binary digits of a positive integer.\<close>

function bitlen :: "int \<Rightarrow> nat" where
  "bitlen k = (if k \<le> 0 then 0 else Suc (bitlen (k div 2)))"
  by pat_completeness auto
termination
  by (relation "measure nat") auto

declare bitlen.simps [simp del]

text \<open>
  Rounding of a magnitude to 24 significant bits, a tie going to the even significand.
\<close>

definition round_sig :: "int \<Rightarrow> int" where
  "round_sig a =
     (let n = bitlen a in
      if n \<le> 24 then a
      else
        let s = n - 24;
            q = a div 2 ^ s;
            r = a mod 2 ^ s;
            h = 2 ^ (s - 1)
        in (if r < h \<or> (r = h \<and> even q) then q else q + 1) * 2 ^ s)"

text \<open>
  Rounding of an exact result \<open>k * 2 ^ -149\<close> to binary32: the magnitude is rounded, and a
  rounded magnitude of \<open>2 ^ 128\<close> (\<open>2 ^ 277\<close> units) or more overflows to an infinity.
\<close>

definition f32_round :: "int \<Rightarrow> f32" where
  "f32_round k =
     (let v = round_sig \<bar>k\<bar> in
      if 2 ^ 277 \<le> v then (if k < 0 then NInf else PInf)
      else Fin (sgn k * v))"

text \<open>Conversion \<^verbatim>\<open>float(n)\<close> of an integer.\<close>

definition f32_of_int :: "int \<Rightarrow> f32" where
  "f32_of_int n = f32_round (n * 2 ^ 149)"

fun fneg :: "f32 \<Rightarrow> f32" where
  "fneg NaN = NaN"
| "fneg NInf = PInf"
| "fneg PInf = NInf"
| "fneg (Fin k) = Fin (- k)"

fun fadd :: "f32 \<Rightarrow> f32 \<Rightarrow> f32" where
  "fadd NaN _ = NaN"
| "fadd _ NaN = NaN"
| "fadd NInf PInf = NaN"
| "fadd PInf NInf = NaN"
| "fadd NInf _ = NInf"
| "fadd _ NInf = NInf"
| "fadd PInf _ = PInf"
| "fadd _ PInf = PInf"
| "fadd (Fin a) (Fin b) = f32_round (a + b)"

definition fsub :: "f32 \<Rightarrow> f32 \<Rightarrow> f32" where
  "fsub x y = fadd x (fneg y)"

text \<open>
  Division by \<^verbatim>\<open>2.0f\<close>. The quotient of an even \<open>k\<close> is exact; an odd \<open>k\<close> lies in the
  range where the spacing is one unit, and its half is a tie, which goes to the even neighbour.
\<close>

fun fhalf :: "f32 \<Rightarrow> f32" where
  "fhalf (Fin k) =
     f32_round (if even k then k div 2
                else let j = k div 2 in if even j then j else j + 1)"
| "fhalf x = x"

text \<open>The comparisons \<^verbatim>\<open><\<close> and \<^verbatim>\<open>>=\<close>; any comparison with a not-a-number is false.\<close>

fun flt :: "f32 \<Rightarrow> f32 \<Rightarrow> bool" where
  "flt NaN _ = False"
| "flt _ NaN = False"
| "flt PInf _ = False"
| "flt _ NInf = False"
| "flt NInf _ = True"
| "flt _ PInf = True"
| "flt (Fin a) (Fin b) = (a < b)"

fun fge :: "f32 \<Rightarrow> f32 \<Rightarrow> bool" where
  "fge NaN _ = False"
| "fge _ NaN = False"
| "fge PInf _ = True"
| "fge _ NInf = True"
| "fge NInf _ = False"
| "fge _ PInf = False"
| "fge (Fin a) (Fin b) = (b \<le> a)"

definition fle :: "f32 \<Rightarrow> f32 \<Rightarrow> bool" where
  "fle a b = fge b a"

text \<open>
  The largest finite binary32 number, in units of \<open>2 ^ -149\<close>, and the finite values
  within the range of the type.
\<close>

definition FLT_MAX_units :: int where
  "FLT_MAX_units = (2 ^ 24 - 1) * 2 ^ 253"

fun is_finite :: "f32 \<Rightarrow> bool" where
  "is_finite (Fin k) = (\<bar>k\<bar> \<le> FLT_MAX_units)"
| "is_finite _ = False"

text \<open>\<^verbatim>\<open>std::max(a, b)\<close> is \<^verbatim>\<open>(a < b) ? b : a\<close> and \<^verbatim>\<open>std::min(a, b)\<close> is
  \<^verbatim>\<open>(b < a) ? b : a\<close>.\<close>

definition fmax :: "f32 \<Rightarrow> f32 \<Rightarrow> f32" where
  "fmax a b = (if flt a b then b else a)"

definition fmin :: "f32 \<Rightarrow> f32 \<Rightarrow> f32" where
  "fmin a b = (if flt b a then b else a)"

section \<open>Viewport positioning (map_viewer.cpp)\<close>

definition centre_point_in_range :: "f32 \<Rightarrow> f32 \<Rightarrow> f32 \<Rightarrow> f32" where
  "centre_point_in_range point len bound =
     (let bound_offset = fsub point (fhalf bound) in
      if fge len bound then
        fmin (fmax bound_offset (Fin 0)) (fsub len bound)
      else if fge bound len then
        fmax (fmin bound_offset (Fin 0)) (fsub len bound)
      else bound_offset)"

section \<open>Object registry (object_manager.cpp)\<close>

text \<open>
  The entities the registry shares. Only what the code under study reads is kept: the id
  (\<^verbatim>\<open>Object::get_id\<close>, \<^verbatim>\<open>set_id\<close>), the dynamic class that
  \<^verbatim>\<open>get_object<T>\<close> casts to, the tile position, and the renderable component with its
  shader (\<open>None\<close> is the null \<^verbatim>\<open>shared_ptr\<close>) and vertex count.
\<close>

datatype object_kind = SpriteKind | MapObjectKind

record renderable_component =
  shader :: "nat option"
  num_vertices_render :: int

record object =
  object_id :: int
  object_kind :: object_kind
  position :: "f32 \<times> f32"
  renderable :: renderable_component

text \<open>
  The static counter \<^verbatim>\<open>next_object_id\<close> and the map \<^verbatim>\<open>objects\<close> of the single
  instance. A \<^verbatim>\<open>shared_ptr<Object>\<close> argument is an \<open>object option\<close>. The \<^verbatim>\<open>glog\<close>
  lines are not part of the state.
\<close>

record object_manager =
  next_object_id :: int
  objects :: "int \<rightharpoonup> object"

definition initial_object_manager :: object_manager where
  "initial_object_manager = \<lparr>next_object_id = 1, objects = Map.empty\<rparr>"

definition INT_MAX :: int where
  "INT_MAX = 2147483647"

text \<open>
  \<^verbatim>\<open>get_next_id\<close> writes the counter into the object, returns it and increments it. The
  counter is an \<^verbatim>\<open>int\<close>: incrementing \<^verbatim>\<open>INT_MAX\<close> is undefined behaviour, which is
  the result \<open>None\<close>.
\<close>

definition get_next_id ::
    "object_manager \<Rightarrow> object \<Rightarrow> (int \<times> object \<times> object_manager) option" where
  "get_next_id om obj =
     (if next_object_id om = INT_MAX then None
      else Some (next_object_id om,
                 obj\<lparr>object_id := next_object_id om\<rparr>,
                 om\<lparr>next_object_id := next_object_id om + 1\<rparr>))"

definition is_valid_object_id :: "object_manager \<Rightarrow> int \<Rightarrow> bool" where
  "is_valid_object_id om i = (0 < i \<and> i < next_object_id om)"

definition add_object :: "object_manager \<Rightarrow> object option \<Rightarrow> bool \<times> object_manager" where
  "add_object om new_object =
     (case new_object of
        None \<Rightarrow> (False, om)
      | Some obj \<Rightarrow>
          if \<not> is_valid_object_id om (object_id obj) then (False, om)
          else (True, om\<lparr>objects := (objects om)(object_id obj \<mapsto> obj)\<rparr>))"

definition remove_object :: "object_manager \<Rightarrow> int \<Rightarrow> object_manager" where
  "remove_object om i =
     (if objects om i \<noteq> None then om\<lparr>objects := (objects om)(i := None)\<rparr> else om)"

text \<open>
  Modelled from the spec: \<^verbatim>\<open>ObjectManager::get_object<T>\<close> is a template of
  \<^verbatim>\<open>object_manager.hpp\<close>, which is not among the sources. The spec: it "returns the
  shared entity or an empty result if not present or of an unexpected kind".
\<close>

definition get_object :: "object_kind \<Rightarrow> object_manager \<Rightarrow> int \<Rightarrow> object option" where
  "get_object k om i =
     (case objects om i of
        None \<Rightarrow> None
      | Some obj \<Rightarrow> if object_kind obj = k then Some obj else None)"

text \<open>Successive allocations, one per entity of a list, in order.\<close>

fun allocate_all ::
    "object_manager \<Rightarrow> object list \<Rightarrow> (int list \<times> object list \<times> object_manager) option" where
  "allocate_all om [] = Some ([], [], om)"
| "allocate_all om (x # xs) =
     (case get_next_id om x of
        None \<Rightarrow> None
      | Some (i, x', om') \<Rightarrow>
          (case allocate_all om' xs of
             None \<Rightarrow> None
           | Some (ids, xs', om'') \<Rightarrow> Some (i # ids, x' # xs', om'')))"

text \<open>Any sequence of calls of the registry.\<close>

datatype registry_op = Allocate object | Add "object option" | Remove int

fun apply_op :: "object_manager \<Rightarrow> registry_op \<Rightarrow> object_manager option" where
  "apply_op om (Allocate x) =
     (case get_next_id om x of None \<Rightarrow> None | Some (i, x', om') \<Rightarrow> Some om')"
| "apply_op om (Add p) = Some (snd (add_object om p))"
| "apply_op om (Remove i) = Some (remove_object om i)"

fun run_ops :: "object_manager \<Rightarrow> registry_op list \<Rightarrow> object_manager option" where
  "run_ops om [] = Some om"
| "run_ops om (x # xs) =
     (case apply_op om x of None \<Rightarrow> None | Some om' \<Rightarrow> run_ops om' xs)"

fun is_allocate :: "registry_op \<Rightarrow> bool" where
  "is_allocate (Allocate x) = True"
| "is_allocate _ = False"

text \<open>An entity for the examples: a sprite at tile (7, 15) whose shader program is 1.\<close>

definition example_sprite :: object where
  "example_sprite =
     \<lparr>object_id = 0, object_kind = SpriteKind,
      position = (f32_of_int 7, f32_of_int 15),
      renderable = \<lparr>shader = Some 1, num_vertices_render = 6\<rparr>\<rparr>"

text \<open>A map object at tile (3, 4), and a registry that has allocated and stored both.\<close>

definition example_map_object :: object where
  "example_map_object =
     \<lparr>object_id = 2, object_kind = MapObjectKind,
      position = (f32_of_int 3, f32_of_int 4),
      renderable = \<lparr>shader = Some 2, num_vertices_render = 6\<rparr>\<rparr>"

definition example_registry :: object_manager where
  "example_registry =
     \<lparr>next_object_id = 3,
      objects = [1 \<mapsto> example_sprite\<lparr>object_id := 1\<rparr>, 2 \<mapsto> example_map_object]\<rparr>"

section \<open>Rendering (map_viewer.cpp)\<close>

text \<open>
  The map consumed by the viewer: its size in tiles, its layers (each a renderable
  component) from bottom to top, and the id lists of its sprites and map objects.
\<close>

record map_data =
  map_width :: int
  map_height :: int
  layers :: "renderable_component list"
  sprites :: "int list"
  map_objects :: "int list"

text \<open>
  The viewer: display origin and size in tiles, the focus id, the bound map (\<open>None\<close> is
  the null pointer) and the renderable component of the GUI manager. The size of the window,
  \<^verbatim>\<open>window->get_size()\<close>, is an argument of the functions that read it.
\<close>

record map_viewer =
  display_x :: f32
  display_y :: f32
  display_width :: f32
  display_height :: f32
  map_focus_object :: int
  bound_map :: "map_data option"
  gui_renderable :: renderable_component

text \<open>
  What a frame does is the sequence of its calls on renderable components, its log lines and
  its calls of the text updater. A call names the component it goes to by its owner.
\<close>

datatype render_target = LayerTarget nat | ObjectTarget int | GuiTarget

datatype render_call =
    SetProjectionMatrix int int
  | SetModelviewMatrix f32 f32
  | BindShader
  | SetUniforms nat
  | BindVbos
  | BindTextures
  | DrawArrays int
  | ReleaseTextures
  | ReleaseVbos
  | ReleaseShader

datatype render_event = Clear | Log string | TextUpdater | Call render_target render_call

text \<open>
  Two ways a frame does not return: a member access through a null pointer, and the fatal
  \<^verbatim>\<open>CHECK_NOTNULL\<close>.
\<close>

datatype render_error = NullDereference | CheckFailed

text \<open>Multiplication by \<^verbatim>\<open>32.0f\<close> and the constant \<^verbatim>\<open>0.5f\<close>.\<close>

fun fmul32 :: "f32 \<Rightarrow> f32" where
  "fmul32 (Fin k) = f32_round (32 * k)"
| "fmul32 x = x"

definition f32_half :: f32 where
  "f32_half = Fin (2 ^ 148)"

text \<open>The calls from the uniforms to the release of the shader, common to all passes.\<close>

definition draw_calls :: "render_target \<Rightarrow> renderable_component \<Rightarrow> nat \<Rightarrow> render_event list" where
  "draw_calls t rc program =
     [Call t (SetUniforms program), Call t BindVbos, Call t BindTextures,
      Call t (DrawArrays (num_vertices_render rc)),
      Call t ReleaseTextures, Call t ReleaseVbos, Call t ReleaseShader]"

text \<open>
  The calls of the sprite and map-object passes on one entity before the shader is tested:
  model-view matrix at \<open>32 * (position - display)\<close>, projection matrix, \<^verbatim>\<open>bind_shader\<close>.
\<close>

definition entity_setup :: "f32 \<times> f32 \<Rightarrow> int \<times> int \<Rightarrow> int \<Rightarrow> object \<Rightarrow> render_event list" where
  "entity_setup display win_size i obj =
     [Call (ObjectTarget i)
        (SetModelviewMatrix (fmul32 (fsub (fst (position obj)) (fst display)))
                            (fmul32 (fsub (snd (position obj)) (snd display)))),
      Call (ObjectTarget i) (SetProjectionMatrix (fst win_size) (snd win_size)),
      Call (ObjectTarget i) BindShader]"

text \<open>
  The loop of \<^verbatim>\<open>render_sprites\<close> and of \<^verbatim>\<open>render_objects\<close>, which differ in the class
  the entity is cast to and in the log line. An id 0 is skipped; the entity is fetched from
  the registry and used without a test; a null shader is logged and the function returns.
\<close>

fun render_pass ::
    "object_kind \<Rightarrow> string \<Rightarrow> object_manager \<Rightarrow> f32 \<times> f32 \<Rightarrow> int \<times> int \<Rightarrow> int list
       \<Rightarrow> render_error + render_event list" where
  "render_pass k msg om display win_size [] = Inr []"
| "render_pass k msg om display win_size (i # ids) =
     (if i \<noteq> 0 then
        (case get_object k om i of
           None \<Rightarrow> Inl NullDereference
         | Some obj \<Rightarrow>
             (case shader (renderable obj) of
                None \<Rightarrow> Inr (entity_setup display win_size i obj @ [Log msg])
              | Some program \<Rightarrow>
                  (case render_pass k msg om display win_size ids of
                     Inl e \<Rightarrow> Inl e
                   | Inr evs \<Rightarrow>
                       Inr (entity_setup display win_size i obj
                            @ draw_calls (ObjectTarget i) (renderable obj) program @ evs))))
      else render_pass k msg om display win_size ids)"

definition sprite_shader_null :: string where
  "sprite_shader_null =
     ''MapViewer::render_map: Shader (sprite_render_component->get_shader()) should not be null''"

definition object_shader_null :: string where
  "object_shader_null =
     ''MapViewer::render_map: Shader (object_render_component->get_shader()) should not be null''"

definition render_sprites ::
    "map_viewer \<Rightarrow> object_manager \<Rightarrow> int \<times> int \<Rightarrow> render_error + render_event list" where
  "render_sprites v om win_size =
     (case bound_map v of
        None \<Rightarrow> Inl NullDereference
      | Some m \<Rightarrow>
          render_pass SpriteKind sprite_shader_null
            om (display_x v, display_y v) win_size (sprites m))"

definition render_objects ::
    "map_viewer \<Rightarrow> object_manager \<Rightarrow> int \<times> int \<Rightarrow> render_error + render_event list" where
  "render_objects v om win_size =
     (case bound_map v of
        None \<Rightarrow> Inl NullDereference
      | Some m \<Rightarrow>
          render_pass MapObjectKind object_shader_null
            om (display_x v, display_y v) win_size (map_objects m))"

definition render_gui :: "map_viewer \<Rightarrow> int \<times> int \<Rightarrow> render_event list" where
  "render_gui v win_size =
     [Call GuiTarget (SetModelviewMatrix (Fin 0) (Fin 0)),
      Call GuiTarget (SetProjectionMatrix (fst win_size) (snd win_size)),
      Call GuiTarget BindShader]
     @ (case shader (gui_renderable v) of
          None \<Rightarrow> [Log ''ERROR: Shader is NULL in MapViewer::render_map'']
        | Some program \<Rightarrow> draw_calls GuiTarget (gui_renderable v) program)"

text \<open>
  \<^verbatim>\<open>refocus_map\<close>: without a focus id nothing happens; a focus sprite that the
  registry still has moves the display; the text updater is called either way.
\<close>

definition refocus_map ::
    "map_viewer \<Rightarrow> object_manager \<Rightarrow> render_error + map_viewer \<times> render_event list" where
  "refocus_map v om =
     (if map_focus_object v = 0 then Inr (v, [Log ''MapViewer::refocus_map: No focus.''])
      else
        (case get_object SpriteKind om (map_focus_object v) of
           Some sprite \<Rightarrow>
             (case bound_map v of
                None \<Rightarrow> Inl NullDereference
              | Some m \<Rightarrow>
                  Inr (v\<lparr>display_x :=
                           centre_point_in_range (fadd (fst (position sprite)) f32_half)
                             (f32_of_int (map_width m)) (display_width v),
                         display_y :=
                           centre_point_in_range (fadd (snd (position sprite)) f32_half)
                             (f32_of_int (map_height m)) (display_height v)\<rparr>,
                       [TextUpdater]))
         | None \<Rightarrow>
             Inr (v, [Log ''MapViewer::refocus_map: No sprites have focus.'', TextUpdater])))"

text \<open>The layers, bottom to top; the shader of a layer is used without a test.\<close>

fun render_layers ::
    "f32 \<times> f32 \<Rightarrow> int \<times> int \<Rightarrow> nat \<Rightarrow> renderable_component list
       \<Rightarrow> render_error + render_event list" where
  "render_layers display win_size n [] = Inr []"
| "render_layers display win_size n (rc # rcs) =
     (case shader rc of
        None \<Rightarrow> Inl NullDereference
      | Some program \<Rightarrow>
          (case render_layers display win_size (Suc n) rcs of
             Inl e \<Rightarrow> Inl e
           | Inr evs \<Rightarrow>
               Inr ([Call (LayerTarget n) (SetProjectionMatrix (fst win_size) (snd win_size)),
                     Call (LayerTarget n)
                       (SetModelviewMatrix (fmul32 (fneg (fst display)))
                                           (fmul32 (fneg (snd display)))),
                     Call (LayerTarget n) BindShader]
                    @ draw_calls (LayerTarget n) rc program @ evs)))"

definition render_map ::
    "map_viewer \<Rightarrow> object_manager \<Rightarrow> int \<times> int
       \<Rightarrow> render_error + map_viewer \<times> render_event list" where
  "render_map v om win_size =
     (case refocus_map v om of
        Inl e \<Rightarrow> Inl e
      | Inr (v', evs) \<Rightarrow>
          (case bound_map v' of
             None \<Rightarrow> Inl NullDereference
           | Some m \<Rightarrow>
               (case render_layers (display_x v', display_y v') win_size 0 (layers m) of
                  Inl e \<Rightarrow> Inl e
                | Inr evs' \<Rightarrow> Inr (v', evs @ evs'))))"

text \<open>One frame: clear, layers, map objects, sprites, GUI.\<close>

definition render ::
    "map_viewer \<Rightarrow> object_manager \<Rightarrow> int \<times> int
       \<Rightarrow> render_error + map_viewer \<times> render_event list" where
  "render v om win_size =
     (case bound_map v of
        None \<Rightarrow> Inl CheckFailed
      | Some m \<Rightarrow>
          (case render_map v om win_size of
             Inl e \<Rightarrow> Inl e
           | Inr (v', map_events) \<Rightarrow>
               (case render_objects v' om win_size of
                  Inl e \<Rightarrow> Inl e
                | Inr object_events \<Rightarrow>
                    (case render_sprites v' om win_size of
                       Inl e \<Rightarrow> Inl e
                     | Inr sprite_events \<Rightarrow>
                         Inr (v', Clear # map_events @ object_events @ sprite_events
                                    @ render_gui v' win_size)))))"

text \<open>
  An entity is drawn by a pass when its id is 0 (nothing to draw) or resolves to an entity
  of the class of the pass that has a shader.
\<close>

definition drawable :: "object_kind \<Rightarrow> object_manager \<Rightarrow> int \<Rightarrow> bool" where
  "drawable k om i =
     (i = 0 \<or> (case get_object k om i of
                  None \<Rightarrow> False
                | Some obj \<Rightarrow> shader (renderable obj) \<noteq> None))"

text \<open>
  A frame for the examples: a 10 by 10 map with one layer, an empty sprite slot, the sprite 1
  and the map objects 3, 4 and 5, shown without a focus in a 640 by 480 window. In the
  registry the map object 4 has no shader.
\<close>

definition example_map :: map_data where
  "example_map =
     \<lparr>map_width = 10, map_height = 10,
      layers = [\<lparr>shader = Some 3, num_vertices_render = 600\<rparr>],
      sprites = [0, 1], map_objects = [3, 4, 5]\<rparr>"

definition example_viewer :: map_viewer where
  "example_viewer =
     \<lparr>display_x = Fin 0, display_y = Fin 0,
      display_width = f32_of_int 20, display_height = f32_of_int 15,
      map_focus_object = 0, bound_map = Some example_map,
      gui_renderable = \<lparr>shader = Some 4, num_vertices_render = 12\<rparr>\<rparr>"

definition unshaded_map_object :: object where
  "unshaded_map_object =
     \<lparr>object_id = 4, object_kind = MapObjectKind,
      position = (f32_of_int 2, f32_of_int 3),
      renderable = \<lparr>shader = None, num_vertices_render = 6\<rparr>\<rparr>"

definition frame_registry :: object_manager where
  "frame_registry =
     \<lparr>next_object_id = 6,
      objects = [1 \<mapsto> example_sprite\<lparr>object_id := 1\<rparr>,
                 3 \<mapsto> example_map_object\<lparr>object_id := 3\<rparr>,
                 4 \<mapsto> unshaded_map_object,
                 5 \<mapsto> example_map_object\<lparr>object_id := 5\<rparr>]\<rparr>"

section \<open>Game window (game_window.cpp)\<close>

text \<open>
  The file is compiled for one of two backends, \<^verbatim>\<open>USE_GLES\<close> (EGL surfaces on a
  dispmanx display) or \<^verbatim>\<open>USE_GL\<close> (desktop OpenGL through SDL), with or without
  \<^verbatim>\<open>GAME_WINDOW_DISABLE_DIRECT_RENDER\<close>.
\<close>

record build_config =
  use_gles :: bool
  disable_direct_render :: bool

datatype init_action = DO_NOTHING | DO_INIT | DO_DEINIT

text \<open>
  The members of a window that the functions under study read or write. \<open>sdl_window\<close> is
  the id of the SDL window once it exists, \<open>background_surface\<close> tells whether that
  pointer is non-null.
\<close>

record game_window =
  visible :: bool
  foreground :: bool
  was_foreground :: bool
  resizing :: bool
  window_x :: int
  window_y :: int
  window_width :: int
  window_height :: int
  close_requested :: bool
  change_surface :: init_action
  sdl_window :: "nat option"
  background_surface :: bool

text \<open>
  What the process holds outside the window objects: whether SDL and the EGL display
  connection are initialised, the SDL windows that exist, how many input managers, dispmanx
  displays and elements, EGL contexts and surfaces, RGB surfaces and GL contexts are alive,
  and the keys of the static index \<^verbatim>\<open>GameWindow::windows\<close>.
\<close>

record system =
  sdl_initialized :: bool
  os_windows :: "nat list"
  input_managers :: int
  dispmanx_displays :: int
  dispmanx_elements :: int
  egl_initialized :: bool
  egl_contexts :: int
  egl_surfaces :: int
  rgb_surfaces :: int
  gl_contexts :: int
  windows :: "nat list"

text \<open>
  How the platform answers the calls of one construction or one surface initialisation:
  which of the fallible calls succeed, the id of the window \<^verbatim>\<open>SDL_CreateWindow\<close> makes
  (\<open>None\<close> is the null pointer), the code of \<^verbatim>\<open>eglGetError\<close> as \<^verbatim>\<open>std::hex\<close>
  prints it, the position \<^verbatim>\<open>XTranslateCoordinates\<close> reports, the
  size \<^verbatim>\<open>SDL_GetWindowSize\<close> reports, and the value the member \<^verbatim>\<open>change_surface\<close>,
  which the constructor does not initialise, happens to have.
\<close>

record platform =
  sdl_init_ok :: bool
  created_window :: "nat option"
  egl_get_display_ok :: bool
  egl_initialize_ok :: bool
  egl_choose_config_ok :: bool
  egl_create_context_ok :: bool
  egl_create_window_surface_ok :: bool
  egl_create_pbuffer_surface_ok :: bool
  egl_make_current_ok :: bool
  egl_destroy_surface_ok :: bool
  egl_error_hex :: string
  x_window_position :: "int \<times> int"
  sdl_window_size :: "int \<times> int"
  indeterminate_action :: init_action

text \<open>
  A function that throws \<^verbatim>\<open>InitException\<close> returns \<open>Inl\<close> with the message and the
  state at the throw: the window object outlives a failed re-initialisation.
\<close>

type_synonym window_state = "game_window \<times> system"

type_synonym init_result = "string \<times> window_state + window_state"

definition deinit_sdl :: "system \<Rightarrow> system" where
  "deinit_sdl sys = sys\<lparr>sdl_initialized := False\<rparr>"

definition deinit_surface :: "build_config \<Rightarrow> platform \<Rightarrow> window_state \<Rightarrow> init_result" where
  "deinit_surface b p st =
     (case st of (gw, sys) \<Rightarrow>
        if use_gles b then
          if visible gw then
            (case (if was_foreground gw then
                     (gw, sys\<lparr>dispmanx_elements := dispmanx_elements sys - 1\<rparr>)
                   else if background_surface gw then
                     (gw\<lparr>background_surface := False\<rparr>,
                      sys\<lparr>rgb_surfaces := rgb_surfaces sys - 1\<rparr>)
                   else (gw, sys)) of
               (gw1, sys1) \<Rightarrow>
                 if \<not> egl_destroy_surface_ok p then
                   Inl (''Error destroying EGL surface'', gw1, sys1)
                 else
                   Inr (gw1\<lparr>visible := False, change_surface := DO_NOTHING\<rparr>,
                        sys1\<lparr>egl_surfaces := egl_surfaces sys1 - 1\<rparr>))
          else Inr (gw\<lparr>visible := False, change_surface := DO_NOTHING\<rparr>, sys)
        else Inr (gw, sys))"

text \<open>
  The \<^verbatim>\<open>USE_GLES\<close> part of \<^verbatim>\<open>init_surface\<close>: a window surface on a new dispmanx
  element when the window is in the foreground, otherwise a pixel buffer and an RGB surface
  for the blit; then the context is connected.
\<close>

definition create_surface :: "platform \<Rightarrow> window_state \<Rightarrow> init_result" where
  "create_surface p st =
     (case st of (gw, sys) \<Rightarrow>
        (case (if foreground gw then
                 (let sys1 = sys\<lparr>dispmanx_elements := dispmanx_elements sys + 1\<rparr> in
                  if \<not> egl_create_window_surface_ok p then
                    Inl (''Error creating window surface: '' @ egl_error_hex p, gw, sys1)
                  else Inr (gw, sys1\<lparr>egl_surfaces := egl_surfaces sys1 + 1\<rparr>))
               else
                 (if \<not> egl_create_pbuffer_surface_ok p then
                    Inl (''Error creating pbuffer surface: '' @ egl_error_hex p, gw, sys)
                  else Inr (gw\<lparr>background_surface := True\<rparr>,
                            sys\<lparr>egl_surfaces := egl_surfaces sys + 1,
                                rgb_surfaces := rgb_surfaces sys + 1\<rparr>))) of
           Inl e \<Rightarrow> Inl e
         | Inr (gw2, sys2) \<Rightarrow>
             if \<not> egl_make_current_ok p then
               Inl (''Error connecting context to surface'', gw2, sys2)
             else Inr (gw2, sys2)))"

definition init_surface ::
    "build_config \<Rightarrow> platform \<Rightarrow> window_state \<Rightarrow> int \<Rightarrow> int \<Rightarrow> int \<Rightarrow> int \<Rightarrow> init_result" where
  "init_surface b p st x y w h =
     (case deinit_surface b p st of
        Inl e \<Rightarrow> Inl e
      | Inr (gw0, sys0) \<Rightarrow>
          (case (if use_gles b then create_surface p (gw0\<lparr>change_surface := DO_INIT\<rparr>, sys0)
                 else Inr (gw0\<lparr>change_surface := DO_INIT\<rparr>, sys0)) of
             Inl e \<Rightarrow> Inl e
           | Inr (gw1, sys1) \<Rightarrow>
               Inr (gw1\<lparr>was_foreground := foreground gw1,
                        visible := True,
                        change_surface := DO_NOTHING,
                        window_x := x,
                        window_y := y,
                        window_width := w,
                        window_height := h\<rparr>,
                    sys1)))"

text \<open>
  \<^verbatim>\<open>init_surface()\<close> without arguments asks the platform for the geometry; the position
  is 0, 0 under \<^verbatim>\<open>USE_GL\<close>.
\<close>

definition init_surface_queried :: "build_config \<Rightarrow> platform \<Rightarrow> window_state \<Rightarrow> init_result" where
  "init_surface_queried b p st =
     init_surface b p st
       (if use_gles b then fst (x_window_position p) else 0)
       (if use_gles b then snd (x_window_position p) else 0)
       (fst (sdl_window_size p)) (snd (sdl_window_size p))"

definition init_gl :: "build_config \<Rightarrow> platform \<Rightarrow> window_state \<Rightarrow> init_result" where
  "init_gl b p st =
     (case st of (gw, sys) \<Rightarrow>
        if use_gles b then
          if \<not> egl_get_display_ok p then Inl (''Error getting display'', gw, sys)
          else if \<not> egl_initialize_ok p then
            Inl (''Error initializing display connection'', gw, sys\<lparr>egl_initialized := False\<rparr>)
          else if \<not> egl_choose_config_ok p then
            Inl (''Error getting window frame buffer configuration'',
                 gw, sys\<lparr>egl_initialized := False\<rparr>)
          else if \<not> egl_create_context_ok p then
            Inl (''Error creating rendering context'', gw, sys\<lparr>egl_initialized := False\<rparr>)
          else
            init_surface_queried b p
              (gw, sys\<lparr>egl_initialized := True, egl_contexts := egl_contexts sys + 1\<rparr>)
        else Inr (gw, sys\<lparr>gl_contexts := gl_contexts sys + 1\<rparr>))"

text \<open>
  The constructor \<^verbatim>\<open>GameWindow(width, height, fullscreen)\<close>. It returns the new window
  and the system with the window registered, or the message of the exception it throws and
  the system it leaves behind.
\<close>

definition GameWindow ::
    "build_config \<Rightarrow> platform \<Rightarrow> int \<Rightarrow> int \<Rightarrow> bool \<Rightarrow> system
       \<Rightarrow> string \<times> system + game_window \<times> system" where
  "GameWindow b p width height fullscreen sys =
     (let gw = \<lparr>visible = False,
                foreground = \<not> disable_direct_render b,
                was_foreground = \<not> disable_direct_render b,
                resizing = False,
                window_x = 0, window_y = 0,
                window_width = width, window_height = height,
                close_requested = False,
                change_surface = indeterminate_action p,
                sdl_window = None,
                background_surface = False\<rparr>;
          sys1 = sys\<lparr>input_managers := input_managers sys + 1\<rparr>
      in
        if windows sys1 = [] \<and> \<not> sdl_init_ok p then Inl (''Failed to initialize SDL'', sys1)
        else
          let sys2 = (if windows sys1 = [] then sys1\<lparr>sdl_initialized := True\<rparr> else sys1) in
          (case created_window p of
             None \<Rightarrow> Inl (''Failed to create SDL window'', deinit_sdl sys2)
           | Some wid \<Rightarrow>
               let sys3 = sys2\<lparr>os_windows := wid # os_windows sys2\<rparr>;
                   sys4 = (if use_gles b
                           then sys3\<lparr>dispmanx_displays := dispmanx_displays sys3 + 1\<rparr>
                           else sys3)
               in
               (case init_gl b p (gw\<lparr>sdl_window := Some wid\<rparr>, sys4) of
                  Inl (msg, gw', sys5) \<Rightarrow>
                    let sys6 = (if use_gles b
                                then sys5\<lparr>dispmanx_displays := dispmanx_displays sys5 - 1\<rparr>
                                else sys5);
                        sys7 = sys6\<lparr>os_windows := remove1 wid (os_windows sys6)\<rparr>
                    in Inl (msg, if windows sys7 = [] then deinit_sdl sys7 else sys7)
                | Inr (gw', sys5) \<Rightarrow>
                    Inr (gw', sys5\<lparr>windows := List.insert wid (windows sys5)\<rparr>))))"

definition get_size :: "game_window \<Rightarrow> int \<times> int" where
  "get_size gw = (window_width gw, window_height gw)"

text \<open>
  Systems and platforms for the examples: nothing initialised yet; one window, 7, open on
  the desktop backend; a platform on which every call succeeds and makes the window 8 of
  800 by 600 at (100, 50), and whose EGL error code reads 3003.
\<close>

definition fresh_system :: system where
  "fresh_system =
     \<lparr>sdl_initialized = False, os_windows = [], input_managers = 0,
      dispmanx_displays = 0, dispmanx_elements = 0, egl_initialized = False,
      egl_contexts = 0, egl_surfaces = 0, rgb_surfaces = 0, gl_contexts = 0,
      windows = []\<rparr>"

definition one_window_system :: system where
  "one_window_system =
     \<lparr>sdl_initialized = True, os_windows = [7], input_managers = 1,
      dispmanx_displays = 0, dispmanx_elements = 0, egl_initialized = False,
      egl_contexts = 0, egl_surfaces = 0, rgb_surfaces = 0, gl_contexts = 1,
      windows = [7]\<rparr>"

definition good_platform :: platform where
  "good_platform =
     \<lparr>sdl_init_ok = True, created_window = Some 8,
      egl_get_display_ok = True, egl_initialize_ok = True, egl_choose_config_ok = True,
      egl_create_context_ok = True, egl_create_window_surface_ok = True,
      egl_create_pbuffer_surface_ok = True, egl_make_current_ok = True,
      egl_destroy_surface_ok = True, egl_error_hex = ''3003'',
      x_window_position = (100, 50), sdl_window_size = (800, 600),
      indeterminate_action = DO_DEINIT\<rparr>"

text \<open>
  The two backends with direct rendering enabled, and a window of 800 by 600 at (100, 50)
  that is live in the foreground on the EGL backend.
\<close>

definition gles_build :: build_config where
  "gles_build = \<lparr>use_gles = True, disable_direct_render = False\<rparr>"

definition gl_build :: build_config where
  "gl_build = \<lparr>use_gles = False, disable_direct_render = False\<rparr>"

definition live_window :: game_window where
  "live_window =
     \<lparr>visible = True, foreground = True, was_foreground = True, resizing = True,
      window_x = 100, window_y = 50, window_width = 800, window_height = 600,
      close_requested = False, change_surface = DO_INIT,
      sdl_window = Some 8, background_surface = False\<rparr>"

definition live_system :: system where
  "live_system =
     \<lparr>sdl_initialized = True, os_windows = [8], input_managers = 1,
      dispmanx_displays = 1, dispmanx_elements = 1, egl_initialized = True,
      egl_contexts = 1, egl_surfaces = 1, rgb_surfaces = 0, gl_contexts = 0,
      windows = [8]\<rparr>"

section \<open>Properties of the arithmetic\<close>

lemma round_sig_0: "round_sig 0 = 0"
  by (simp add: round_sig_def bitlen.simps)

lemma f32_round_0: "f32_round 0 = Fin 0"
  by (simp add: f32_round_def round_sig_0)

lemma round_sig_nonneg: "0 \<le> a \<Longrightarrow> 0 \<le> round_sig a"
  by (simp add: round_sig_def Let_def pos_imp_zdiv_nonneg_iff)

lemma f32_round_nonneg: "0 \<le> k \<Longrightarrow> fge (f32_round k) (Fin 0)"
  using round_sig_nonneg [of "\<bar>k\<bar>"] by (simp add: f32_round_def Let_def sgn_if)

lemma f32_round_nonpos: "k \<le> 0 \<Longrightarrow> fge (Fin 0) (f32_round k)"
  using round_sig_nonneg [of "\<bar>k\<bar>"]
  by (simp add: f32_round_def Let_def sgn_if round_sig_0)

lemma f32_round_not_NaN: "f32_round k \<noteq> NaN"
  by (simp add: f32_round_def Let_def)

text \<open>
  Rounding stays within the binade, so the half of a finite number is finite and the raw
  offset \<open>point - bound / 2\<close> is a number whenever \<open>point\<close> is.
\<close>

lemma bitlen_le: "a < 2 ^ m \<Longrightarrow> bitlen a \<le> m"
proof (induction a arbitrary: m rule: bitlen.induct)
  case (1 k)
  show ?case
  proof (cases "k \<le> 0")
    case True
    then show ?thesis by (simp add: bitlen.simps)
  next
    case False
    with "1.prems" obtain m' where m: "m = Suc m'"
      by (cases m) auto
    with "1.prems" have "k div 2 < 2 ^ m'" by simp
    from "1.IH" [OF False this] have "bitlen (k div 2) \<le> m'" .
    with False m show ?thesis by (simp add: bitlen.simps [of k])
  qed
qed

lemma bitlen_upper: "a < 2 ^ bitlen a"
proof (induction a rule: bitlen.induct)
  case (1 k)
  show ?case
  proof (cases "k \<le> 0")
    case True
    then have "k < 1" by simp
    also have "(1::int) \<le> 2 ^ bitlen k" by simp
    finally show ?thesis .
  next
    case False
    from "1.IH" [OF False] have "k div 2 < 2 ^ bitlen (k div 2)" .
    then have "k < 2 * 2 ^ bitlen (k div 2)" by simp
    with False show ?thesis by (simp add: bitlen.simps [of k])
  qed
qed

lemma int_div_less:
  assumes "(a::int) < c * d" and "0 < d"
  shows "a div d < c"
proof (rule ccontr)
  assume "\<not> a div d < c"
  then have "c \<le> a div d" by simp
  with assms(2) have "c * d \<le> a div d * d" by (simp add: mult_right_mono)
  moreover have "a div d * d + a mod d = a" by (rule div_mult_mod_eq)
  moreover from assms(2) have "0 \<le> a mod d" by simp
  ultimately have "c * d \<le> a" by linarith
  with assms(1) show False by simp
qed

lemma round_sig_le: "0 \<le> a \<Longrightarrow> round_sig a \<le> 2 ^ bitlen a"
proof (cases "bitlen a \<le> 24")
  case True
  then show ?thesis using bitlen_upper [of a] by (simp add: round_sig_def)
next
  case False
  assume a: "0 \<le> a"
  let ?s = "bitlen a - 24"
  have n: "bitlen a = 24 + ?s" using False by simp
  have "a < 2 ^ 24 * 2 ^ ?s"
    using bitlen_upper [of a] n by (metis power_add)
  then have "a div 2 ^ ?s < 2 ^ 24"
    by (rule int_div_less) simp
  then have q: "(if a mod 2 ^ ?s < 2 ^ (?s - 1) \<or> (a mod 2 ^ ?s = 2 ^ (?s - 1) \<and> even (a div 2 ^ ?s))
          then a div 2 ^ ?s else a div 2 ^ ?s + 1) \<le> 2 ^ 24"
    by simp
  have "round_sig a = (if a mod 2 ^ ?s < 2 ^ (?s - 1) \<or> (a mod 2 ^ ?s = 2 ^ (?s - 1) \<and> even (a div 2 ^ ?s))
          then a div 2 ^ ?s else a div 2 ^ ?s + 1) * 2 ^ ?s"
    using False by (simp add: round_sig_def Let_def)
  also have "\<dots> \<le> 2 ^ 24 * 2 ^ ?s"
    using q by (rule mult_right_mono) simp
  also have "\<dots> = 2 ^ bitlen a"
    using n by (metis power_add)
  finally show ?thesis .
qed

lemma f32_round_finite:
  assumes "\<bar>j\<bar> < 2 ^ 276"
  shows "\<exists>h. f32_round j = Fin h"
proof -
  from assms have "bitlen \<bar>j\<bar> \<le> 276" by (rule bitlen_le)
  then have "(2::int) ^ bitlen \<bar>j\<bar> \<le> 2 ^ 276"
    by (simp only: power_increasing_iff [of 2] )
  with round_sig_le [of "\<bar>j\<bar>"] have "round_sig \<bar>j\<bar> \<le> 2 ^ 276" by simp
  also have "(2::int) ^ 276 < 2 ^ 277" by simp
  finally show ?thesis by (simp add: f32_round_def Let_def)
qed

lemma fhalf_finite:
  assumes "is_finite x"
  shows "\<exists>h. fhalf x = Fin h"
proof -
  from assms obtain k where x: "x = Fin k" and k: "\<bar>k\<bar> \<le> FLT_MAX_units"
    by (cases x) auto
  have m: "FLT_MAX_units + 2 \<le> 2 ^ 277"
    by (simp add: FLT_MAX_units_def)
  let ?j = "if even k then k div 2 else let j = k div 2 in if even j then j else j + 1"
  have "2 * \<bar>?j\<bar> \<le> \<bar>k\<bar> + 1"
    by (auto simp: Let_def) presburger+
  with k m have "2 * \<bar>?j\<bar> < 2 * 2 ^ 276" by simp
  then have "\<bar>?j\<bar> < 2 ^ 276" by simp
  from f32_round_finite [OF this] x show ?thesis by simp
qed

lemma fsub_not_NaN:
  assumes "point \<noteq> NaN" and "is_finite bound"
  shows "fsub point (fhalf bound) \<noteq> NaN"
proof -
  from fhalf_finite [OF assms(2)] obtain h where h: "fhalf bound = Fin h" by blast
  from assms(1) show ?thesis
    unfolding h by (cases point) (simp_all add: fsub_def f32_round_not_NaN)
qed


text \<open>The two clamps of \<open>centre_point_in_range\<close>, on any number.\<close>

lemma clamp_upper:
  assumes "x \<noteq> NaN" "fge m (Fin 0)"
  shows "fle (Fin 0) (fmin (fmax x (Fin 0)) m) \<and> fle (fmin (fmax x (Fin 0)) m) m"
  using assms by (cases x; cases m) (auto simp: fle_def fmin_def fmax_def)

lemma clamp_lower:
  assumes "x \<noteq> NaN" "fge (Fin 0) m"
  shows "fle m (fmax (fmin x (Fin 0)) m) \<and> fle (fmax (fmin x (Fin 0)) m) (Fin 0)"
  using assms by (cases x; cases m) (auto simp: fle_def fmin_def fmax_def)

lemma clamp_upper_idem:
  "fmin (fmax (fmin (fmax x (Fin 0)) m) (Fin 0)) m = fmin (fmax x (Fin 0)) m"
  by (cases x; cases m) (auto simp: fmin_def fmax_def)

lemma clamp_lower_idem:
  "fmax (fmin (fmax (fmin x (Fin 0)) m) (Fin 0)) m = fmax (fmin x (Fin 0)) m"
  by (cases x; cases m) (auto simp: fmin_def fmax_def)

text \<open>The difference of two finite numbers is the exact difference, rounded.\<close>

lemma fsub_Fin: "fsub (Fin l) (Fin b) = f32_round (l - b)"
  by (simp add: fsub_def)

section \<open>The viewport clamping law\<close>

text \<open>
  Claim C1 as stated: for finite non-negative \<open>length\<close> and \<open>bound\<close> and any
  \<open>point\<close>, the result lies in \<open>[0, length - bound]\<close> when \<open>bound \<le> length\<close>. In
  single precision this fails in two ways. The upper end the function clamps to is its own
  rounded difference: on a map 50 tiles wide, with \<open>bound\<close> the number
  \<open>13150891 / 2 ^ 21\<close> nearest to \<open>301 / 48\<close> and the focus sprite on the last tile, so
  that \<open>point\<close> is 49.5, the exact difference \<open>91706709 / 2 ^ 21\<close> needs 27 bits and is
  rounded up to \<open>11463339 / 2 ^ 18\<close>, which the function returns: a value above
  \<open>length - bound\<close>. And a \<open>point\<close> that is not a number passes both clamps unchanged,
  since every comparison with it is false: the result is not a number and lies in no range.
\<close>

theorem centre_point_in_range_leaves_exact_range:
  "is_finite (f32_of_int 50) \<and> is_finite (Fin (13150891 * 2 ^ 128)) \<and>
   f32_round (13150891 * 2 ^ 128) = Fin (13150891 * 2 ^ 128) \<and>
   f32_of_int 50 = Fin (50 * 2 ^ 149) \<and>
   fge (f32_of_int 50) (Fin (13150891 * 2 ^ 128)) \<and>
   centre_point_in_range (fadd (f32_of_int 49) f32_half) (f32_of_int 50)
       (Fin (13150891 * 2 ^ 128))
     = Fin (11463339 * 2 ^ 131) \<and>
   (50 * 2 ^ 149 - 13150891 * 2 ^ 128 :: int) < 11463339 * 2 ^ 131 \<and>
   centre_point_in_range NaN (f32_of_int 50) (Fin (13150891 * 2 ^ 128)) = NaN \<and>
   \<not> fle (Fin 0) NaN \<and>
   \<not> fle NaN (fsub (f32_of_int 50) (Fin (13150891 * 2 ^ 128)))"
  by code_simp

text \<open>
  Claim C1, amended: for finite non-negative \<open>length\<close> and \<open>bound\<close> and any \<open>point\<close>
  that is a number (finite or infinite), \<open>centre_point_in_range point length bound\<close> lies
  in \<open>[0, length - bound]\<close> when \<open>bound \<le> length\<close> and in \<open>[length - bound, 0]\<close> when
  \<open>length \<le> bound\<close>, where \<open>length - bound\<close> is the single-precision difference that
  the function itself computes, the exact difference rounded to the nearest binary32 number.
\<close>

theorem centre_point_in_range_bounds:
  assumes "is_finite len" and "is_finite bound"
    and "fge len (Fin 0)" and "fge bound (Fin 0)"
    and "point \<noteq> NaN"
  shows "(fge len bound \<longrightarrow>
            fle (Fin 0) (centre_point_in_range point len bound) \<and>
            fle (centre_point_in_range point len bound) (fsub len bound)) \<and>
         (fge bound len \<longrightarrow>
            fle (fsub len bound) (centre_point_in_range point len bound) \<and>
            fle (centre_point_in_range point len bound) (Fin 0))"
proof -
  from assms(1) obtain l where l: "len = Fin l" by (cases len) auto
  from assms(2) obtain b where b: "bound = Fin b" by (cases bound) auto
  note raw = fsub_not_NaN [OF assms(5) assms(2)]
  show ?thesis
  proof (intro conjI impI)
    assume "fge len bound"
    then have le: "b \<le> l" by (simp add: l b)
    then have m: "fge (fsub len bound) (Fin 0)"
      by (simp add: l b fsub_def f32_round_nonneg)
    from le have c: "centre_point_in_range point len bound =
        fmin (fmax (fsub point (fhalf bound)) (Fin 0)) (fsub len bound)"
      by (simp add: centre_point_in_range_def Let_def l b)
    show "fle (Fin 0) (centre_point_in_range point len bound)"
      unfolding c using clamp_upper [OF raw m] by blast
    show "fle (centre_point_in_range point len bound) (fsub len bound)"
      unfolding c using clamp_upper [OF raw m] by blast
  next
    assume "fge bound len"
    then have le: "l \<le> b" by (simp add: l b)
    then have m: "fge (Fin 0) (fsub len bound)"
      by (simp add: l b fsub_def f32_round_nonpos)
    have "fle (fsub len bound) (centre_point_in_range point len bound) \<and>
          fle (centre_point_in_range point len bound) (Fin 0)"
    proof (cases "b \<le> l")
      case True
      with le have eq: "l = b" by simp
      have z: "fsub len bound = Fin 0"
        by (simp add: l b eq fsub_def f32_round_0)
      have c: "centre_point_in_range point len bound =
          fmin (fmax (fsub point (fhalf bound)) (Fin 0)) (Fin 0)"
        using z by (simp add: centre_point_in_range_def Let_def l b eq)
      have "fge (Fin 0) (Fin 0)" by simp
      from clamp_upper [OF raw this] show ?thesis
        unfolding c z by blast
    next
      case False
      then have c: "centre_point_in_range point len bound =
          fmax (fmin (fsub point (fhalf bound)) (Fin 0)) (fsub len bound)"
        using le by (simp add: centre_point_in_range_def Let_def l b)
      show ?thesis
        unfolding c using clamp_lower [OF raw m] by blast
    qed
    then show "fle (fsub len bound) (centre_point_in_range point len bound)"
      and "fle (centre_point_in_range point len bound) (Fin 0)"
      by blast+
  qed
qed

text \<open>
  The law at two examples: a 4-tile display on a 10-tile map centred on 8 is moved back to
  offset 6, the upper end of \<open>[0, 6]\<close>; a 10-tile display on a 4-tile map centred on 2 gets
  offset -3, inside \<open>[-6, 0]\<close>.
\<close>

theorem centre_point_in_range_bounds_witness:
  "(is_finite (f32_of_int 10) \<and> is_finite (f32_of_int 4) \<and>
    fge (f32_of_int 10) (Fin 0) \<and> fge (f32_of_int 4) (Fin 0) \<and>
    f32_of_int 8 \<noteq> NaN \<and> f32_of_int 2 \<noteq> NaN \<and>
    fge (f32_of_int 10) (f32_of_int 4)) \<and>
   (centre_point_in_range (f32_of_int 8) (f32_of_int 10) (f32_of_int 4) = f32_of_int 6 \<and>
    fle (Fin 0) (f32_of_int 6) \<and> fle (f32_of_int 6) (fsub (f32_of_int 10) (f32_of_int 4))) \<and>
   (centre_point_in_range (f32_of_int 2) (f32_of_int 4) (f32_of_int 10) = f32_of_int (- 3) \<and>
    fle (fsub (f32_of_int 4) (f32_of_int 10)) (f32_of_int (- 3)) \<and>
    fle (f32_of_int (- 3)) (Fin 0))"
proof -
  have f: "is_finite (f32_of_int 10)" "is_finite (f32_of_int 4)"
    by code_simp+
  have n: "fge (f32_of_int 10) (Fin 0)" "fge (f32_of_int 4) (Fin 0)"
    by code_simp+
  have p: "f32_of_int 8 \<noteq> NaN" "f32_of_int 2 \<noteq> NaN"
    by (simp_all add: f32_of_int_def f32_round_not_NaN)
  have g: "fge (f32_of_int 10) (f32_of_int 4)"
    by code_simp
  have c: "centre_point_in_range (f32_of_int 8) (f32_of_int 10) (f32_of_int 4) = f32_of_int 6"
    "centre_point_in_range (f32_of_int 2) (f32_of_int 4) (f32_of_int 10) = f32_of_int (- 3)"
    by code_simp+
  from centre_point_in_range_bounds [OF f(1) f(2) n(1) n(2) p(1)] g
  have upper: "fle (Fin 0) (centre_point_in_range (f32_of_int 8) (f32_of_int 10) (f32_of_int 4)) \<and>
        fle (centre_point_in_range (f32_of_int 8) (f32_of_int 10) (f32_of_int 4))
            (fsub (f32_of_int 10) (f32_of_int 4))"
    by blast
  from centre_point_in_range_bounds [OF f(2) f(1) n(2) n(1) p(2)] g
  have lower: "fle (fsub (f32_of_int 4) (f32_of_int 10))
            (centre_point_in_range (f32_of_int 2) (f32_of_int 4) (f32_of_int 10)) \<and>
        fle (centre_point_in_range (f32_of_int 2) (f32_of_int 4) (f32_of_int 10)) (Fin 0)"
    by blast
  from upper lower f n p g show ?thesis unfolding c by simp
qed

section \<open>Re-centring on the clamped viewport\<close>

text \<open>
  Claim C6 as stated: for all finite non-negative \<open>length\<close> and \<open>bound\<close> and any
  \<open>point\<close>, applying \<open>centre_point_in_range\<close> to the centre of the clamped viewport,
  \<open>centre_point_in_range point length bound + bound / 2\<close>, gives the same offset again.
  In single precision this fails. Take a map 10 tiles wide, a window 301 pixels wide with
  tiles of 48 pixels, so that \<open>bound\<close> is \<open>13150891 / 2 ^ 21\<close>, the number nearest to
  \<open>301 / 48\<close>, and a focus sprite at tile 7, so that \<open>point\<close> is 7.5. The offset is
  \<open>7820629 / 2 ^ 21\<close>, the upper end \<open>length - bound\<close>. The new centre
  \<open>offset + bound / 2\<close> is a tie and is rounded down by \<open>2 ^ -22\<close>, and the second
  application returns \<open>15641257 / 2 ^ 22\<close>, which is \<open>2 ^ -22\<close> less than the offset.
\<close>

theorem centre_point_in_range_not_idempotent:
  "centre_point_in_range (fadd (f32_of_int 7) f32_half) (f32_of_int 10)
       (Fin (13150891 * 2 ^ 128))
     = Fin (7820629 * 2 ^ 128) \<and>
   centre_point_in_range
     (fadd (centre_point_in_range (fadd (f32_of_int 7) f32_half) (f32_of_int 10)
              (Fin (13150891 * 2 ^ 128)))
           (fhalf (Fin (13150891 * 2 ^ 128))))
     (f32_of_int 10) (Fin (13150891 * 2 ^ 128))
     = Fin (15641257 * 2 ^ 127) \<and>
   Fin (15641257 * 2 ^ 127) \<noteq> Fin (7820629 * 2 ^ 128) \<and>
   is_finite (Fin (13150891 * 2 ^ 128)) \<and>
   f32_round (13150891 * 2 ^ 128) = Fin (13150891 * 2 ^ 128)"
  by code_simp

text \<open>
  Claim C6, amended: re-applying \<open>centre_point_in_range\<close> to the centre of the clamped
  viewport gives the same offset whenever the re-centring is exact, that is, whenever the
  single-precision computation \<open>(offset + bound / 2) - bound / 2\<close> gives back \<open>offset\<close>.
  This holds for every \<open>point\<close>, \<open>length\<close> and \<open>bound\<close>.
\<close>

theorem centre_point_in_range_idempotent_if_exact:
  assumes "fsub (fadd (centre_point_in_range point len bound) (fhalf bound)) (fhalf bound)
             = centre_point_in_range point len bound"
  shows "centre_point_in_range (fadd (centre_point_in_range point len bound) (fhalf bound))
           len bound
         = centre_point_in_range point len bound"
proof -
  let ?r = "centre_point_in_range point len bound"
  have "centre_point_in_range (fadd ?r (fhalf bound)) len bound =
      (if fge len bound then fmin (fmax ?r (Fin 0)) (fsub len bound)
       else if fge bound len then fmax (fmin ?r (Fin 0)) (fsub len bound)
       else ?r)"
    using assms by (simp add: centre_point_in_range_def [of "fadd ?r (fhalf bound)"] Let_def)
  also have "\<dots> = ?r"
    by (simp add: centre_point_in_range_def [of point] Let_def clamp_upper_idem clamp_lower_idem)
  finally show ?thesis .
qed

text \<open>
  Two exact re-centrings on a 10-tile map with a 4-tile display: the point 8, whose offset
  is clamped to 6 and re-centred on 8 again, and the point 1, whose offset is clamped to 0
  and re-centred on 2.
\<close>

theorem centre_point_in_range_idempotent_if_exact_witness:
  "(fsub (fadd (centre_point_in_range (f32_of_int 8) (f32_of_int 10) (f32_of_int 4))
               (fhalf (f32_of_int 4))) (fhalf (f32_of_int 4))
      = centre_point_in_range (f32_of_int 8) (f32_of_int 10) (f32_of_int 4) \<and>
    centre_point_in_range (f32_of_int 8) (f32_of_int 10) (f32_of_int 4) = f32_of_int 6 \<and>
    centre_point_in_range (fadd (f32_of_int 6) (fhalf (f32_of_int 4)))
        (f32_of_int 10) (f32_of_int 4) = f32_of_int 6) \<and>
   (fsub (fadd (centre_point_in_range (f32_of_int 1) (f32_of_int 10) (f32_of_int 4))
               (fhalf (f32_of_int 4))) (fhalf (f32_of_int 4))
      = centre_point_in_range (f32_of_int 1) (f32_of_int 10) (f32_of_int 4) \<and>
    centre_point_in_range (f32_of_int 1) (f32_of_int 10) (f32_of_int 4) = Fin 0 \<and>
    fadd (Fin 0) (fhalf (f32_of_int 4)) = f32_of_int 2 \<and>
    f32_of_int 2 \<noteq> f32_of_int 1 \<and>
    centre_point_in_range (f32_of_int 2) (f32_of_int 10) (f32_of_int 4) = Fin 0)"
proof -
  have h: "fsub (fadd (centre_point_in_range (f32_of_int 8) (f32_of_int 10) (f32_of_int 4))
              (fhalf (f32_of_int 4))) (fhalf (f32_of_int 4))
     = centre_point_in_range (f32_of_int 8) (f32_of_int 10) (f32_of_int 4)"
    by code_simp
  have c: "centre_point_in_range (f32_of_int 8) (f32_of_int 10) (f32_of_int 4) = f32_of_int 6"
    by code_simp
  have h': "fsub (fadd (centre_point_in_range (f32_of_int 1) (f32_of_int 10) (f32_of_int 4))
              (fhalf (f32_of_int 4))) (fhalf (f32_of_int 4))
     = centre_point_in_range (f32_of_int 1) (f32_of_int 10) (f32_of_int 4)"
    by code_simp
  have c': "centre_point_in_range (f32_of_int 1) (f32_of_int 10) (f32_of_int 4) = Fin 0"
    by code_simp
  have p: "fadd (Fin 0) (fhalf (f32_of_int 4)) = f32_of_int 2"
    "f32_of_int 2 \<noteq> f32_of_int 1"
    by code_simp+
  from centre_point_in_range_idempotent_if_exact [OF h] h c
  have first: "fsub (fadd (centre_point_in_range (f32_of_int 8) (f32_of_int 10) (f32_of_int 4))
               (fhalf (f32_of_int 4))) (fhalf (f32_of_int 4))
      = centre_point_in_range (f32_of_int 8) (f32_of_int 10) (f32_of_int 4) \<and>
    centre_point_in_range (f32_of_int 8) (f32_of_int 10) (f32_of_int 4) = f32_of_int 6 \<and>
    centre_point_in_range (fadd (f32_of_int 6) (fhalf (f32_of_int 4)))
        (f32_of_int 10) (f32_of_int 4) = f32_of_int 6"
    by simp
  from centre_point_in_range_idempotent_if_exact [OF h'] c' p
  have "centre_point_in_range (f32_of_int 2) (f32_of_int 10) (f32_of_int 4) = Fin 0"
    by simp
  with first h' c' p show ?thesis by blast
qed

section \<open>Properties of the registry\<close>

lemma get_next_id_Some:
  "get_next_id om x = Some (i, x', om') \<Longrightarrow>
     i = next_object_id om \<and> x' = x\<lparr>object_id := i\<rparr> \<and>
     om' = om\<lparr>next_object_id := i + 1\<rparr>"
  by (auto simp: get_next_id_def split: if_splits)

lemma add_object_next: "next_object_id (snd (add_object om p)) = next_object_id om"
  by (simp add: add_object_def split: option.splits)

lemma remove_object_next: "next_object_id (remove_object om i) = next_object_id om"
  by (simp add: remove_object_def)

lemma apply_op_next:
  "apply_op om x = Some om' \<Longrightarrow> next_object_id om \<le> next_object_id om'"
  by (cases x)
     (auto simp: add_object_next remove_object_next dest: get_next_id_Some split: option.splits)

lemma run_ops_next:
  "run_ops om xs = Some om' \<Longrightarrow> next_object_id om \<le> next_object_id om'"
proof (induction xs arbitrary: om)
  case Nil
  then show ?case by simp
next
  case (Cons x xs)
  then obtain om1 where a: "apply_op om x = Some om1" and r: "run_ops om1 xs = Some om'"
    by (auto split: option.splits)
  from apply_op_next [OF a] Cons.IH [OF r] show ?case by simp
qed

text \<open>
  Allocation from any counter value: the ids are the next integers in order, each written
  into its entity, as long as the counter stays within \<^verbatim>\<open>int\<close>.
\<close>

lemma allocate_all_from:
  assumes "next_object_id om + int (length xs) \<le> INT_MAX"
  shows "allocate_all om xs =
            Some ([next_object_id om ..  next_object_id om + int (length xs) - 1],
                  map (\<lambda>(i, x). x\<lparr>object_id := i\<rparr>)
                    (zip [next_object_id om ..  next_object_id om + int (length xs) - 1] xs),
                  om\<lparr>next_object_id := next_object_id om + int (length xs)\<rparr>)"
  using assms
proof (induction xs arbitrary: om)
  case Nil
  then show ?case by simp
next
  case (Cons x xs)
  let ?c = "next_object_id om"
  let ?om1 = "om\<lparr>next_object_id := ?c + 1\<rparr>"
  from Cons.prems have lt: "?c \<noteq> INT_MAX" by simp
  then have g: "get_next_id om x = Some (?c, x\<lparr>object_id := ?c\<rparr>, ?om1)"
    by (simp add: get_next_id_def)
  from Cons.prems have "next_object_id ?om1 + int (length xs) \<le> INT_MAX" by simp
  from Cons.IH [OF this] have
    a: "allocate_all ?om1 xs =
          Some ([?c + 1 .. ?c + 1 + int (length xs) - 1],
                map (\<lambda>(i, x). x\<lparr>object_id := i\<rparr>)
                  (zip [?c + 1 .. ?c + 1 + int (length xs) - 1] xs),
                ?om1\<lparr>next_object_id := ?c + 1 + int (length xs)\<rparr>)"
    by simp
  have u: "[?c .. ?c + int (length (x # xs)) - 1] = ?c # [?c + 1 .. ?c + 1 + int (length xs) - 1]"
    by (simp add: upto_rec1 [of ?c] add.commute)
  show ?case
    unfolding u using g a by (simp add: add.commute add.left_commute)
qed

lemma map_object_id_zip:
  "length is = length xs \<Longrightarrow>
     map object_id (map (\<lambda>(i, x). x\<lparr>object_id := i\<rparr>) (zip is xs)) = is"
  by (induction "is" xs rule: list_induct2) simp_all

section \<open>Id allocation\<close>

text \<open>
  Claim C8. Starting from the initial counter 1, allocating ids for \<open>N\<close> successive entities
  succeeds and returns exactly \<open>1, ..., N\<close> in allocation order; the \<open>k\<close>-th entity has
  the id \<open>k\<close> stored in it, and the counter ends at \<open>N + 1\<close>. So the ids are distinct and
  none is 0. The counter is an \<^verbatim>\<open>int\<close>, so \<open>N\<close> is below \<^verbatim>\<open>INT_MAX\<close>.
\<close>

theorem allocate_ids_successive:
  assumes "int (length xs) < INT_MAX"
  shows "allocate_all initial_object_manager xs =
           Some ([1 .. int (length xs)],
                 map (\<lambda>(i, x). x\<lparr>object_id := i\<rparr>) (zip [1 .. int (length xs)] xs),
                 initial_object_manager\<lparr>next_object_id := int (length xs) + 1\<rparr>) \<and>
         map object_id (map (\<lambda>(i, x). x\<lparr>object_id := i\<rparr>) (zip [1 .. int (length xs)] xs))
           = [1 .. int (length xs)] \<and>
         distinct [1 .. int (length xs)] \<and> 0 \<notin> set [1 .. int (length xs)]"
proof -
  have n: "next_object_id initial_object_manager = 1"
    by (simp add: initial_object_manager_def)
  from assms have "next_object_id initial_object_manager + int (length xs) \<le> INT_MAX"
    by (simp add: n)
  from allocate_all_from [OF this] have
    "allocate_all initial_object_manager xs =
       Some ([1 .. int (length xs)],
             map (\<lambda>(i, x). x\<lparr>object_id := i\<rparr>) (zip [1 .. int (length xs)] xs),
             initial_object_manager\<lparr>next_object_id := int (length xs) + 1\<rparr>)"
    by (simp add: n add.commute)
  moreover have
    "map object_id (map (\<lambda>(i, x). x\<lparr>object_id := i\<rparr>) (zip [1 .. int (length xs)] xs))
      = [1 .. int (length xs)]"
    by (rule map_object_id_zip) simp
  ultimately show ?thesis by simp
qed

theorem allocate_ids_successive_witness:
  "int (length [example_sprite, example_sprite, example_sprite]) < INT_MAX \<and>
   allocate_all initial_object_manager [example_sprite, example_sprite, example_sprite]
     = Some ([1, 2, 3],
             [example_sprite\<lparr>object_id := 1\<rparr>, example_sprite\<lparr>object_id := 2\<rparr>,
              example_sprite\<lparr>object_id := 3\<rparr>],
             initial_object_manager\<lparr>next_object_id := 4\<rparr>)"
proof -
  have h: "int (length [example_sprite, example_sprite, example_sprite]) < INT_MAX"
    by (simp add: INT_MAX_def)
  have u: "[1 .. int (length [example_sprite, example_sprite, example_sprite])] = [1, 2, 3]"
    by (simp add: upto_rec1)
  from allocate_ids_successive [OF h] h show ?thesis
    unfolding u by simp
qed

section \<open>The counter never decreases\<close>

lemma run_ops_defined:
  "next_object_id om + int (length (filter is_allocate ops)) \<le> INT_MAX \<Longrightarrow>
     run_ops om ops \<noteq> None"
proof (induction ops arbitrary: om)
  case Nil
  then show ?case by simp
next
  case (Cons x xs)
  show ?case
  proof (cases x)
    case (Allocate y)
    with Cons.prems have "next_object_id om \<noteq> INT_MAX" by simp
    then have g: "get_next_id om y =
        Some (next_object_id om, y\<lparr>object_id := next_object_id om\<rparr>,
              om\<lparr>next_object_id := next_object_id om + 1\<rparr>)"
      by (simp add: get_next_id_def)
    from Cons.prems Allocate
    have "next_object_id (om\<lparr>next_object_id := next_object_id om + 1\<rparr>)
            + int (length (filter is_allocate xs)) \<le> INT_MAX"
      by simp
    from Cons.IH [OF this] show ?thesis using Allocate g by simp
  next
    case (Add p)
    with Cons.prems have "next_object_id (snd (add_object om p))
        + int (length (filter is_allocate xs)) \<le> INT_MAX"
      by (simp add: add_object_next)
    from Cons.IH [OF this] show ?thesis using Add by simp
  next
    case (Remove i)
    with Cons.prems have "next_object_id (remove_object om i)
        + int (length (filter is_allocate xs)) \<le> INT_MAX"
      by (simp add: remove_object_next)
    from Cons.IH [OF this] show ?thesis using Remove by simp
  qed
qed

text \<open>
  Claim C9. Any sequence of allocate, add and remove calls that keeps the counter within
  \<^verbatim>\<open>int\<close> runs to a registry whose counter is not below the starting one, so every id
  that was valid before is valid after. Add and remove leave the counter unchanged, an id
  stays valid when its own entity is removed, and an allocation increments the counter by one.
\<close>

theorem next_object_id_never_decreases:
  assumes "next_object_id om + int (length (filter is_allocate ops)) \<le> INT_MAX"
  shows "(\<exists>om'. run_ops om ops = Some om' \<and>
            next_object_id om \<le> next_object_id om' \<and>
            (is_valid_object_id om i \<longrightarrow> is_valid_object_id om' i)) \<and>
         next_object_id (snd (add_object om p)) = next_object_id om \<and>
         next_object_id (remove_object om k) = next_object_id om \<and>
         (is_valid_object_id om k \<longrightarrow> is_valid_object_id (remove_object om k) k) \<and>
         (\<forall>j x' om1. get_next_id om x = Some (j, x', om1) \<longrightarrow>
              next_object_id om1 = next_object_id om + 1)"
proof (intro conjI)
  from run_ops_defined [OF assms] obtain om' where r: "run_ops om ops = Some om'"
    by auto
  have "next_object_id om \<le> next_object_id om'"
    by (rule run_ops_next [OF r])
  moreover have "is_valid_object_id om i \<longrightarrow> is_valid_object_id om' i"
    using run_ops_next [OF r] by (simp add: is_valid_object_id_def)
  ultimately show "\<exists>om'. run_ops om ops = Some om' \<and>
            next_object_id om \<le> next_object_id om' \<and>
            (is_valid_object_id om i \<longrightarrow> is_valid_object_id om' i)"
    using r by blast
  show "next_object_id (snd (add_object om p)) = next_object_id om"
    by (rule add_object_next)
  show "next_object_id (remove_object om k) = next_object_id om"
    by (rule remove_object_next)
  show "is_valid_object_id om k \<longrightarrow> is_valid_object_id (remove_object om k) k"
    by (simp add: is_valid_object_id_def remove_object_next)
  show "\<forall>j x' om1. get_next_id om x = Some (j, x', om1) \<longrightarrow>
              next_object_id om1 = next_object_id om + 1"
    by (auto dest: get_next_id_Some)
qed

theorem next_object_id_never_decreases_witness:
  "next_object_id example_registry
     + int (length (filter is_allocate [Remove 1, Allocate example_sprite, Add None, Remove 2]))
     \<le> INT_MAX \<and>
   run_ops example_registry [Remove 1, Allocate example_sprite, Add None, Remove 2]
     = Some \<lparr>next_object_id = 4, objects = Map.empty\<rparr> \<and>
   is_valid_object_id example_registry 1 \<and>
   is_valid_object_id \<lparr>next_object_id = 4, objects = Map.empty\<rparr> 1 \<and>
   get_next_id example_registry example_sprite
     = Some (3, example_sprite\<lparr>object_id := 3\<rparr>, example_registry\<lparr>next_object_id := 4\<rparr>) \<and>
   is_valid_object_id (remove_object example_registry 1) 1"
proof -
  have h: "next_object_id example_registry
     + int (length (filter is_allocate [Remove 1, Allocate example_sprite, Add None, Remove 2]))
     \<le> INT_MAX"
    by (simp add: example_registry_def INT_MAX_def)
  have r: "run_ops example_registry [Remove 1, Allocate example_sprite, Add None, Remove 2]
     = Some \<lparr>next_object_id = 4, objects = Map.empty\<rparr>"
    by (simp add: example_registry_def remove_object_def get_next_id_def add_object_def
        INT_MAX_def)
  have v: "is_valid_object_id example_registry 1"
    by (simp add: example_registry_def is_valid_object_id_def)
  have g: "get_next_id example_registry example_sprite
     = Some (3, example_sprite\<lparr>object_id := 3\<rparr>, example_registry\<lparr>next_object_id := 4\<rparr>)"
    by (simp add: example_registry_def get_next_id_def INT_MAX_def)
  from next_object_id_never_decreases [OF h, of 1 None 1 example_sprite] v g r h
  show ?thesis by simp
qed

section \<open>Removal\<close>

lemma remove_object_objects:
  "objects (remove_object om k) = (objects om)(k := None)"
  by (auto simp: remove_object_def)

text \<open>
  Claim C2 as stated: after \<open>remove(k)\<close> of an allocated id, \<open>is_valid(k)\<close> is false.
  The predicate only compares the id with the counter, which removal does not touch: the
  first id allocated, stored and then removed is still valid.
\<close>

theorem removed_id_still_valid:
  "get_next_id initial_object_manager example_sprite
     = Some (1, example_sprite\<lparr>object_id := 1\<rparr>, \<lparr>next_object_id = 2, objects = Map.empty\<rparr>) \<and>
   objects (snd (add_object \<lparr>next_object_id = 2, objects = Map.empty\<rparr>
                (Some (example_sprite\<lparr>object_id := 1\<rparr>)))) 1
     = Some (example_sprite\<lparr>object_id := 1\<rparr>) \<and>
   is_valid_object_id
     (remove_object
        (snd (add_object \<lparr>next_object_id = 2, objects = Map.empty\<rparr>
                (Some (example_sprite\<lparr>object_id := 1\<rparr>)))) 1) 1"
  by (simp add: is_valid_object_id_def remove_object_def add_object_def get_next_id_def
      initial_object_manager_def INT_MAX_def)

text \<open>
  Claim C2, amended: after \<open>remove(k)\<close> of an allocated id \<open>k\<close>, the map has no entry for
  \<open>k\<close> and \<open>get(k)\<close> is empty, while \<open>is_valid(k)\<close> stays true; for every other id the
  stored entity, the result of \<open>get\<close> and the validity are unchanged.
\<close>

theorem remove_object_effect:
  assumes "is_valid_object_id om k"
  shows "is_valid_object_id (remove_object om k) k \<and>
         objects (remove_object om k) k = None \<and>
         get_object c (remove_object om k) k = None \<and>
         (\<forall>j. j \<noteq> k \<longrightarrow>
            objects (remove_object om k) j = objects om j \<and>
            get_object c (remove_object om k) j = get_object c om j \<and>
            is_valid_object_id (remove_object om k) j = is_valid_object_id om j)"
  using assms
  by (simp add: is_valid_object_id_def remove_object_next get_object_def remove_object_objects)

theorem remove_object_effect_witness:
  "is_valid_object_id example_registry 1 \<and>
   is_valid_object_id (remove_object example_registry 1) 1 \<and>
   get_object SpriteKind example_registry 1 = Some (example_sprite\<lparr>object_id := 1\<rparr>) \<and>
   get_object SpriteKind (remove_object example_registry 1) 1 = None \<and>
   (2::int) \<noteq> 1 \<and>
   get_object MapObjectKind (remove_object example_registry 1) 2 = Some example_map_object"
proof -
  have v: "is_valid_object_id example_registry 1"
    by (simp add: example_registry_def is_valid_object_id_def)
  have g: "get_object SpriteKind example_registry 1 = Some (example_sprite\<lparr>object_id := 1\<rparr>)"
    by (simp add: example_registry_def get_object_def example_sprite_def)
  have g2: "get_object MapObjectKind example_registry 2 = Some example_map_object"
    by (simp add: example_registry_def get_object_def example_map_object_def)
  from remove_object_effect [OF v, of SpriteKind] remove_object_effect [OF v, of MapObjectKind]
    v g g2
  show ?thesis by simp
qed

section \<open>Addition\<close>

text \<open>
  Claim C5 as stated: \<open>add\<close> also fails, and changes nothing, when an entry for the id is
  already stored. The code has no such check: adding an entity under the id 1 of a stored
  sprite succeeds and replaces the sprite.
\<close>

theorem add_object_duplicate_overwrites:
  "objects example_registry 1 = Some (example_sprite\<lparr>object_id := 1\<rparr>) \<and>
   fst (add_object example_registry (Some (example_map_object\<lparr>object_id := 1\<rparr>))) = True \<and>
   objects (snd (add_object example_registry (Some (example_map_object\<lparr>object_id := 1\<rparr>)))) 1
     = Some (example_map_object\<lparr>object_id := 1\<rparr>) \<and>
   example_map_object\<lparr>object_id := 1\<rparr> \<noteq> example_sprite\<lparr>object_id := 1\<rparr>"
  by (simp add: example_registry_def add_object_def is_valid_object_id_def
      example_map_object_def example_sprite_def)

text \<open>
  Claim C5, amended: \<open>add\<close> returns failure exactly when the entity is null or its id is
  outside \<open>(0, next_object_id)\<close>, and then the registry is unchanged; in every other case it
  succeeds and the entity is stored under its id, in place of any entry stored there before,
  nothing else changing.
\<close>

theorem add_object_fails_iff:
  "(fst (add_object om p) = False) =
     (p = None \<or> (\<exists>x. p = Some x \<and> \<not> is_valid_object_id om (object_id x))) \<and>
   (fst (add_object om p) = False \<longrightarrow> snd (add_object om p) = om) \<and>
   (\<forall>x. p = Some x \<and> is_valid_object_id om (object_id x) \<longrightarrow>
      add_object om p = (True, om\<lparr>objects := (objects om)(object_id x \<mapsto> x)\<rparr>))"
  by (cases p) (simp_all add: add_object_def)

theorem add_object_fails_iff_witness:
  "fst (add_object example_registry None) = False \<and>
   snd (add_object example_registry None) = example_registry \<and>
   fst (add_object example_registry (Some example_sprite)) = False \<and>
   snd (add_object example_registry (Some example_sprite)) = example_registry \<and>
   is_valid_object_id example_registry (object_id example_map_object) \<and>
   add_object example_registry (Some example_map_object)
     = (True, example_registry\<lparr>objects := (objects example_registry)(2 \<mapsto> example_map_object)\<rparr>)"
proof -
  have a: "fst (add_object example_registry None) = False"
    by (simp add: add_object_def)
  have b: "fst (add_object example_registry (Some example_sprite)) = False"
    by (simp add: add_object_def is_valid_object_id_def example_sprite_def)
  have c: "is_valid_object_id example_registry (object_id example_map_object)"
    by (simp add: example_registry_def is_valid_object_id_def example_map_object_def)
  have i: "object_id example_map_object = 2"
    by (simp add: example_map_object_def)
  from add_object_fails_iff [of example_registry None] a
    add_object_fails_iff [of example_registry "Some example_sprite"] b
    add_object_fails_iff [of example_registry "Some example_map_object"] c i
  show ?thesis by simp
qed

section \<open>Properties of the render passes\<close>

text \<open>The model-view translations of the example frame.\<close>

lemma example_values:
  "fmul32 (fsub (f32_of_int 2) (Fin 0)) = f32_of_int 64"
  "fmul32 (fsub (f32_of_int 3) (Fin 0)) = f32_of_int 96"
  "fmul32 (fsub (f32_of_int 4) (Fin 0)) = f32_of_int 128"
  "fmul32 (fsub (f32_of_int 7) (Fin 0)) = f32_of_int 224"
  "fmul32 (fsub (f32_of_int 15) (Fin 0)) = f32_of_int 480"
  "fmul32 (fneg (Fin 0)) = Fin 0"
  by code_simp+

text \<open>
  A pass over a list whose first part is drawn in full continues with the rest of the list.
\<close>

lemma render_pass_append:
  assumes "\<forall>j \<in> set pre. drawable k om j"
  shows "\<exists>evs. render_pass k msg om d sz pre = Inr evs \<and>
           render_pass k msg om d sz (pre @ rest) =
             (case render_pass k msg om d sz rest of
                Inl e \<Rightarrow> Inl e
              | Inr evs' \<Rightarrow> Inr (evs @ evs'))"
  using assms
proof (induction pre)
  case Nil
  show ?case by (simp split: sum.splits)
next
  case (Cons i pre)
  then obtain evs where
    p: "render_pass k msg om d sz pre = Inr evs" and
    a: "render_pass k msg om d sz (pre @ rest) =
             (case render_pass k msg om d sz rest of
                Inl e \<Rightarrow> Inl e
              | Inr evs' \<Rightarrow> Inr (evs @ evs'))"
    by auto
  show ?case
  proof (cases "i = 0")
    case True
    with p a show ?thesis by simp
  next
    case False
    with Cons.prems obtain obj prog where
      g: "get_object k om i = Some obj" and s: "shader (renderable obj) = Some prog"
      by (auto simp: drawable_def split: option.splits)
    with False p a show ?thesis by (simp split: sum.splits)
  qed
qed

lemma render_pass_null_shader:
  assumes "\<forall>j \<in> set pre. drawable k om j"
    and "i \<noteq> 0" and "get_object k om i = Some obj" and "shader (renderable obj) = None"
  shows "\<exists>evs. render_pass k msg om d sz pre = Inr evs \<and>
           render_pass k msg om d sz (pre @ i # rest) =
             Inr (evs @ entity_setup d sz i obj @ [Log msg])"
proof -
  from render_pass_append [OF assms(1), of msg d sz "i # rest"] obtain evs where
    p: "render_pass k msg om d sz pre = Inr evs" and
    a: "render_pass k msg om d sz (pre @ i # rest) =
             (case render_pass k msg om d sz (i # rest) of
                Inl e \<Rightarrow> Inl e
              | Inr evs' \<Rightarrow> Inr (evs @ evs'))"
    by blast
  from assms(2-4) have "render_pass k msg om d sz (i # rest) =
      Inr (entity_setup d sz i obj @ [Log msg])"
    by simp
  with p a show ?thesis by simp
qed

lemma refocus_map_bound:
  "refocus_map v om = Inr (v', evs) \<Longrightarrow> bound_map v' = bound_map v"
  by (auto simp: refocus_map_def split: if_splits option.splits)

lemma render_frame:
  assumes "render_map v om sz = Inr (v', em)"
    and "render_objects v' om sz = Inr eo"
    and "render_sprites v' om sz = Inr es"
  shows "render v om sz = Inr (v', Clear # em @ eo @ es @ render_gui v' sz)"
proof -
  from assms(1) obtain m where "bound_map v = Some m"
    by (auto simp: render_map_def split: sum.splits option.splits dest: refocus_map_bound)
  with assms show ?thesis by (simp add: render_def)
qed

section \<open>A null shader in a render pass\<close>

text \<open>
  Claim C3 as stated: an entity whose shader is null is logged and skipped alone, and the
  remaining entities of the pass are still rendered. In the example frame the map object 4
  has no shader and the map object 5 after it has one: the pass sets up and logs 4 and
  returns, and there is no call on 5.
\<close>

theorem null_shader_skips_later_entities:
  "drawable MapObjectKind frame_registry 5 \<and>
   map_objects example_map = [3, 4, 5] \<and>
   render_objects example_viewer frame_registry (640, 480) =
     Inr [Call (ObjectTarget 3) (SetModelviewMatrix (f32_of_int 96) (f32_of_int 128)),
          Call (ObjectTarget 3) (SetProjectionMatrix 640 480),
          Call (ObjectTarget 3) BindShader,
          Call (ObjectTarget 3) (SetUniforms 2),
          Call (ObjectTarget 3) BindVbos,
          Call (ObjectTarget 3) BindTextures,
          Call (ObjectTarget 3) (DrawArrays 6),
          Call (ObjectTarget 3) ReleaseTextures,
          Call (ObjectTarget 3) ReleaseVbos,
          Call (ObjectTarget 3) ReleaseShader,
          Call (ObjectTarget 4) (SetModelviewMatrix (f32_of_int 64) (f32_of_int 96)),
          Call (ObjectTarget 4) (SetProjectionMatrix 640 480),
          Call (ObjectTarget 4) BindShader,
          Log object_shader_null]"
proof -
  have "drawable MapObjectKind frame_registry 5"
    by (simp add: drawable_def frame_registry_def get_object_def example_map_object_def)
  moreover have "map_objects example_map = [3, 4, 5]"
    by (simp add: example_map_def)
  moreover have "render_objects example_viewer frame_registry (640, 480) =
     Inr [Call (ObjectTarget 3) (SetModelviewMatrix (f32_of_int 96) (f32_of_int 128)),
          Call (ObjectTarget 3) (SetProjectionMatrix 640 480),
          Call (ObjectTarget 3) BindShader,
          Call (ObjectTarget 3) (SetUniforms 2),
          Call (ObjectTarget 3) BindVbos,
          Call (ObjectTarget 3) BindTextures,
          Call (ObjectTarget 3) (DrawArrays 6),
          Call (ObjectTarget 3) ReleaseTextures,
          Call (ObjectTarget 3) ReleaseVbos,
          Call (ObjectTarget 3) ReleaseShader,
          Call (ObjectTarget 4) (SetModelviewMatrix (f32_of_int 64) (f32_of_int 96)),
          Call (ObjectTarget 4) (SetProjectionMatrix 640 480),
          Call (ObjectTarget 4) BindShader,
          Log object_shader_null]"
    by (simp add: render_objects_def example_viewer_def example_map_def frame_registry_def
        unshaded_map_object_def example_map_object_def get_object_def entity_setup_def
        draw_calls_def example_values)
  ultimately show ?thesis by simp
qed

text \<open>
  Claim C3, amended: when an entity of the sprite pass or of the map-object pass has a null
  shader, the error is logged and that pass returns at once. The entities listed before it
  have been rendered in full; after its matrices and \<^verbatim>\<open>bind_shader\<close> comes the log line
  and nothing else of that pass, so the entities listed after it are not rendered. The rest
  of the frame is still rendered: a frame whose passes return consists of the clear, the
  layers, the map-object pass, the sprite pass and the GUI.
\<close>

theorem null_shader_ends_pass:
  assumes "\<forall>j \<in> set pre. drawable k om j"
    and "i \<noteq> 0" and "get_object k om i = Some obj" and "shader (renderable obj) = None"
    and "bound_map v' = Some m"
  shows "(k = SpriteKind \<and> sprites m = pre @ i # rest \<longrightarrow>
           (\<exists>evs. render_pass k sprite_shader_null om (display_x v', display_y v') sz pre = Inr evs \<and>
                  render_sprites v' om sz =
                    Inr (evs @ entity_setup (display_x v', display_y v') sz i obj
                             @ [Log sprite_shader_null]))) \<and>
         (k = MapObjectKind \<and> map_objects m = pre @ i # rest \<longrightarrow>
           (\<exists>evs. render_pass k object_shader_null om (display_x v', display_y v') sz pre = Inr evs \<and>
                  render_objects v' om sz =
                    Inr (evs @ entity_setup (display_x v', display_y v') sz i obj
                             @ [Log object_shader_null]))) \<and>
         (\<forall>em eo es.
            render_map v om sz = Inr (v', em) \<and> render_objects v' om sz = Inr eo \<and>
            render_sprites v' om sz = Inr es \<longrightarrow>
            render v om sz = Inr (v', Clear # em @ eo @ es @ render_gui v' sz))"
proof (intro conjI impI allI)
  assume "k = SpriteKind \<and> sprites m = pre @ i # rest"
  with render_pass_null_shader [OF assms(1-4), of sprite_shader_null "(display_x v', display_y v')" sz rest]
    assms(5)
  show "\<exists>evs. render_pass k sprite_shader_null om (display_x v', display_y v') sz pre = Inr evs \<and>
                  render_sprites v' om sz =
                    Inr (evs @ entity_setup (display_x v', display_y v') sz i obj
                             @ [Log sprite_shader_null])"
    by (simp add: render_sprites_def)
next
  assume "k = MapObjectKind \<and> map_objects m = pre @ i # rest"
  with render_pass_null_shader [OF assms(1-4), of object_shader_null "(display_x v', display_y v')" sz rest]
    assms(5)
  show "\<exists>evs. render_pass k object_shader_null om (display_x v', display_y v') sz pre = Inr evs \<and>
                  render_objects v' om sz =
                    Inr (evs @ entity_setup (display_x v', display_y v') sz i obj
                             @ [Log object_shader_null])"
    by (simp add: render_objects_def)
next
  fix em eo es
  assume "render_map v om sz = Inr (v', em) \<and> render_objects v' om sz = Inr eo \<and>
            render_sprites v' om sz = Inr es"
  then show "render v om sz = Inr (v', Clear # em @ eo @ es @ render_gui v' sz)"
    using render_frame by blast
qed


theorem null_shader_ends_pass_witness:
  "drawable MapObjectKind frame_registry 3 \<and> (4::int) \<noteq> 0 \<and>
   get_object MapObjectKind frame_registry 4 = Some unshaded_map_object \<and>
   shader (renderable unshaded_map_object) = None \<and>
   bound_map example_viewer = Some example_map \<and>
   map_objects example_map = [3] @ 4 # [5] \<and>
   render_objects example_viewer frame_registry (640, 480) =
     Inr (entity_setup (Fin 0, Fin 0) (640, 480) 3 (example_map_object\<lparr>object_id := 3\<rparr>)
          @ draw_calls (ObjectTarget 3) (renderable example_map_object) 2
          @ entity_setup (Fin 0, Fin 0) (640, 480) 4 unshaded_map_object
          @ [Log object_shader_null]) \<and>
   render example_viewer frame_registry (640, 480) =
     Inr (example_viewer,
          Clear # [Log ''MapViewer::refocus_map: No focus.'']
          @ [Call (LayerTarget 0) (SetProjectionMatrix 640 480),
             Call (LayerTarget 0) (SetModelviewMatrix (Fin 0) (Fin 0)),
             Call (LayerTarget 0) BindShader]
          @ draw_calls (LayerTarget 0) \<lparr>shader = Some 3, num_vertices_render = 600\<rparr> 3
          @ entity_setup (Fin 0, Fin 0) (640, 480) 3 (example_map_object\<lparr>object_id := 3\<rparr>)
          @ draw_calls (ObjectTarget 3) (renderable example_map_object) 2
          @ entity_setup (Fin 0, Fin 0) (640, 480) 4 unshaded_map_object
          @ [Log object_shader_null]
          @ entity_setup (Fin 0, Fin 0) (640, 480) 1 (example_sprite\<lparr>object_id := 1\<rparr>)
          @ draw_calls (ObjectTarget 1) (renderable example_sprite) 1
          @ render_gui example_viewer (640, 480))"
proof -
  have d3: "drawable MapObjectKind frame_registry 3"
    by (simp add: drawable_def frame_registry_def get_object_def example_map_object_def)
  then have d: "\<forall>j \<in> set [3]. drawable MapObjectKind frame_registry j"
    by simp
  have n: "(4::int) \<noteq> 0" by simp
  have g: "get_object MapObjectKind frame_registry 4 = Some unshaded_map_object"
    by (simp add: frame_registry_def get_object_def unshaded_map_object_def)
  have s: "shader (renderable unshaded_map_object) = None"
    by (simp add: unshaded_map_object_def)
  have b: "bound_map example_viewer = Some example_map"
    by (simp add: example_viewer_def)
  have m: "map_objects example_map = [3] @ 4 # [5]"
    by (simp add: example_map_def)
  have dx: "display_x example_viewer = Fin 0" "display_y example_viewer = Fin 0"
    by (simp_all add: example_viewer_def)
  have p: "render_pass MapObjectKind object_shader_null frame_registry (Fin 0, Fin 0) (640, 480) [3]
      = Inr (entity_setup (Fin 0, Fin 0) (640, 480) 3 (example_map_object\<lparr>object_id := 3\<rparr>)
          @ draw_calls (ObjectTarget 3) (renderable example_map_object) 2)"
    by (simp add: frame_registry_def get_object_def example_map_object_def)
  have es: "render_sprites example_viewer frame_registry (640, 480) =
      Inr (entity_setup (Fin 0, Fin 0) (640, 480) 1 (example_sprite\<lparr>object_id := 1\<rparr>)
          @ draw_calls (ObjectTarget 1) (renderable example_sprite) 1)"
    by (simp add: render_sprites_def example_viewer_def example_map_def frame_registry_def
        get_object_def example_sprite_def)
  have em: "render_map example_viewer frame_registry (640, 480) =
      Inr (example_viewer,
           [Log ''MapViewer::refocus_map: No focus.'']
           @ [Call (LayerTarget 0) (SetProjectionMatrix 640 480),
              Call (LayerTarget 0) (SetModelviewMatrix (Fin 0) (Fin 0)),
              Call (LayerTarget 0) BindShader]
           @ draw_calls (LayerTarget 0) \<lparr>shader = Some 3, num_vertices_render = 600\<rparr> 3)"
    by (simp add: render_map_def refocus_map_def example_viewer_def example_map_def
        example_values f32_round_0)
  note t = null_shader_ends_pass [OF d n g s b,
      where v = example_viewer and rest = "[5]" and sz = "(640, 480)"]
  from t m p have eo: "render_objects example_viewer frame_registry (640, 480) =
     Inr (entity_setup (Fin 0, Fin 0) (640, 480) 3 (example_map_object\<lparr>object_id := 3\<rparr>)
          @ draw_calls (ObjectTarget 3) (renderable example_map_object) 2
          @ entity_setup (Fin 0, Fin 0) (640, 480) 4 unshaded_map_object
          @ [Log object_shader_null])"
    by (simp add: dx)
  from t em eo es have "render example_viewer frame_registry (640, 480) =
     Inr (example_viewer,
          Clear # ([Log ''MapViewer::refocus_map: No focus.'']
           @ [Call (LayerTarget 0) (SetProjectionMatrix 640 480),
              Call (LayerTarget 0) (SetModelviewMatrix (Fin 0) (Fin 0)),
              Call (LayerTarget 0) BindShader]
           @ draw_calls (LayerTarget 0) \<lparr>shader = Some 3, num_vertices_render = 600\<rparr> 3)
          @ (entity_setup (Fin 0, Fin 0) (640, 480) 3 (example_map_object\<lparr>object_id := 3\<rparr>)
          @ draw_calls (ObjectTarget 3) (renderable example_map_object) 2
          @ entity_setup (Fin 0, Fin 0) (640, 480) 4 unshaded_map_object
          @ [Log object_shader_null])
          @ (entity_setup (Fin 0, Fin 0) (640, 480) 1 (example_sprite\<lparr>object_id := 1\<rparr>)
          @ draw_calls (ObjectTarget 1) (renderable example_sprite) 1)
          @ render_gui example_viewer (640, 480))"
    by blast
  with d3 n g s b m eo show ?thesis by simp
qed

section \<open>An id the registry no longer has\<close>

text \<open>
  Claim C4: the render passes tolerate an id for which the registry returns no entity. The
  passes use the pointer they get without a test (\<^verbatim>\<open>sprite->get_renderable_component()\<close>),
  unlike \<open>refocus_map\<close>, which tests it: with the sprite 1, or the map object 3, removed
  from the registry but still listed by the map, the pass and the frame end in a null
  dereference.
\<close>

theorem absent_entity_is_dereferenced:
  "get_object SpriteKind (remove_object frame_registry 1) 1 = None \<and>
   render_sprites example_viewer (remove_object frame_registry 1) (640, 480)
     = Inl NullDereference \<and>
   get_object MapObjectKind (remove_object frame_registry 3) 3 = None \<and>
   render_objects example_viewer (remove_object frame_registry 3) (640, 480)
     = Inl NullDereference \<and>
   render example_viewer (remove_object frame_registry 1) (640, 480) = Inl NullDereference"
  by (simp add: render_def render_map_def refocus_map_def render_sprites_def render_objects_def
      example_viewer_def example_map_def frame_registry_def remove_object_def get_object_def
      example_map_object_def unshaded_map_object_def example_values)

section \<open>Properties of the surface initialisation\<close>

lemma deinit_surface_geometry:
  "deinit_surface b p (gw, sys) = Inl (msg, gw', sys') \<or>
   deinit_surface b p (gw, sys) = Inr (gw', sys') \<Longrightarrow>
     window_x gw' = window_x gw \<and> window_y gw' = window_y gw \<and>
     window_width gw' = window_width gw \<and> window_height gw' = window_height gw"
  by (auto simp: deinit_surface_def split: if_splits)

lemma create_surface_geometry:
  "create_surface p (gw, sys) = Inl (msg, gw', sys') \<or>
   create_surface p (gw, sys) = Inr (gw', sys') \<Longrightarrow>
     window_x gw' = window_x gw \<and> window_y gw' = window_y gw \<and>
     window_width gw' = window_width gw \<and> window_height gw' = window_height gw"
  by (auto simp: create_surface_def Let_def split: if_splits)

lemma init_surface_fails:
  assumes "init_surface b p (gw, sys) x y w h = Inl (msg, gw', sys')"
  shows "window_x gw' = window_x gw \<and> window_y gw' = window_y gw \<and>
     window_width gw' = window_width gw \<and> window_height gw' = window_height gw"
proof (cases "deinit_surface b p (gw, sys)")
  case (Inl e)
  with assms have "deinit_surface b p (gw, sys) = Inl (msg, gw', sys')"
    by (simp add: init_surface_def)
  then show ?thesis using deinit_surface_geometry by blast
next
  case (Inr st)
  obtain gw0 sys0 where st: "st = (gw0, sys0)" by (cases st)
  from Inr st have g0: "window_x gw0 = window_x gw \<and> window_y gw0 = window_y gw \<and>
     window_width gw0 = window_width gw \<and> window_height gw0 = window_height gw"
    using deinit_surface_geometry by blast
  from assms Inr st have u: "use_gles b"
    by (auto simp: init_surface_def split: if_splits)
  with assms Inr st have "create_surface p (gw0\<lparr>change_surface := DO_INIT\<rparr>, sys0)
      = Inl (msg, gw', sys')"
    by (auto simp: init_surface_def split: sum.splits)
  from create_surface_geometry [OF disjI1, OF this] g0 show ?thesis by simp
qed

lemma init_surface_succeeds:
  assumes "init_surface b p (gw, sys) x y w h = Inr (gw', sys')"
  shows "window_x gw' = x \<and> window_y gw' = y \<and> window_width gw' = w \<and> window_height gw' = h"
  using assms by (auto simp: init_surface_def split: sum.splits if_splits)

section \<open>Recorded geometry\<close>

text \<open>
  Claim C10. When \<open>init_surface\<close> throws, at whichever step, the recorded position and
  size of the window, hence \<open>get_size\<close>, are what they were before the call; when it
  returns they are its arguments. The same holds of the variant that queries the geometry,
  which the event loop calls.
\<close>

theorem init_surface_geometry:
  "(init_surface b p (gw, sys) x y w h = Inl (msg, gw', sys') \<longrightarrow>
      get_size gw' = get_size gw \<and> window_x gw' = window_x gw \<and> window_y gw' = window_y gw) \<and>
   (init_surface b p (gw, sys) x y w h = Inr (gw', sys') \<longrightarrow>
      get_size gw' = (w, h) \<and> window_x gw' = x \<and> window_y gw' = y) \<and>
   (init_surface_queried b p (gw, sys) = Inl (msg, gw', sys') \<longrightarrow>
      get_size gw' = get_size gw \<and> window_x gw' = window_x gw \<and> window_y gw' = window_y gw)"
  using init_surface_fails init_surface_succeeds
  by (auto simp: get_size_def init_surface_queried_def)

theorem init_surface_geometry_witness:
  "init_surface gles_build (good_platform\<lparr>egl_make_current_ok := False\<rparr>)
       (live_window, live_system) 0 0 1024 768
     = Inl (''Error connecting context to surface'',
            live_window\<lparr>visible := False\<rparr>, live_system) \<and>
   get_size live_window = (800, 600) \<and>
   get_size (live_window\<lparr>visible := False\<rparr>) = (800, 600) \<and>
   init_surface gles_build good_platform (live_window, live_system) 0 0 1024 768
     = Inr (live_window\<lparr>change_surface := DO_NOTHING, window_x := 0, window_y := 0,
                        window_width := 1024, window_height := 768\<rparr>, live_system) \<and>
   get_size (live_window\<lparr>change_surface := DO_NOTHING, window_x := 0, window_y := 0,
                         window_width := 1024, window_height := 768\<rparr>) = (1024, 768) \<and>
   init_surface_queried gles_build (good_platform\<lparr>egl_create_window_surface_ok := False\<rparr>)
       (live_window, live_system)
     = Inl (''Error creating window surface: 3003'',
            live_window\<lparr>visible := False\<rparr>, live_system\<lparr>egl_surfaces := 0\<rparr>)"
proof -
  have a: "init_surface gles_build (good_platform\<lparr>egl_make_current_ok := False\<rparr>)
       (live_window, live_system) 0 0 1024 768
     = Inl (''Error connecting context to surface'',
            live_window\<lparr>visible := False\<rparr>, live_system)"
    by (simp add: init_surface_def deinit_surface_def create_surface_def gles_build_def
        good_platform_def live_window_def live_system_def)
  have b: "init_surface gles_build good_platform (live_window, live_system) 0 0 1024 768
     = Inr (live_window\<lparr>change_surface := DO_NOTHING, window_x := 0, window_y := 0,
                        window_width := 1024, window_height := 768\<rparr>, live_system)"
    by (simp add: init_surface_def deinit_surface_def create_surface_def gles_build_def
        good_platform_def live_window_def live_system_def)
  have c: "init_surface_queried gles_build (good_platform\<lparr>egl_create_window_surface_ok := False\<rparr>)
       (live_window, live_system)
     = Inl (''Error creating window surface: 3003'',
            live_window\<lparr>visible := False\<rparr>, live_system\<lparr>egl_surfaces := 0\<rparr>)"
    by (simp add: init_surface_queried_def init_surface_def deinit_surface_def
        create_surface_def gles_build_def good_platform_def live_window_def live_system_def)
  have g: "get_size live_window = (800, 600)"
    by (simp add: get_size_def live_window_def)
  from init_surface_geometry [of gles_build "good_platform\<lparr>egl_make_current_ok := False\<rparr>"
      live_window live_system 0 0 1024 768 "''Error connecting context to surface''"
      "live_window\<lparr>visible := False\<rparr>" live_system] a g
  have 1: "get_size (live_window\<lparr>visible := False\<rparr>) = (800, 600)"
    by simp
  from init_surface_geometry [of gles_build good_platform
      live_window live_system 0 0 1024 768 _
      "live_window\<lparr>change_surface := DO_NOTHING, window_x := 0, window_y := 0,
                        window_width := 1024, window_height := 768\<rparr>" live_system] b
  have 2: "get_size (live_window\<lparr>change_surface := DO_NOTHING, window_x := 0, window_y := 0,
                         window_width := 1024, window_height := 768\<rparr>) = (1024, 768)"
    by simp
  from a b c g 1 2 show ?thesis by simp
qed

section \<open>Failed construction\<close>

lemma deinit_surface_index:
  "deinit_surface b p (gw, sys) = Inl (msg, gw', sys') \<or>
   deinit_surface b p (gw, sys) = Inr (gw', sys') \<Longrightarrow>
     windows sys' = windows sys \<and> os_windows sys' = os_windows sys"
  by (auto simp: deinit_surface_def split: if_splits)

lemma create_surface_index:
  "create_surface p (gw, sys) = Inl (msg, gw', sys') \<or>
   create_surface p (gw, sys) = Inr (gw', sys') \<Longrightarrow>
     windows sys' = windows sys \<and> os_windows sys' = os_windows sys"
  by (auto simp: create_surface_def Let_def split: if_splits)

lemma init_surface_index:
  assumes "init_surface b p (gw, sys) x y w h = Inl (msg, gw', sys')"
  shows "windows sys' = windows sys \<and> os_windows sys' = os_windows sys"
proof (cases "deinit_surface b p (gw, sys)")
  case (Inl e)
  with assms have "deinit_surface b p (gw, sys) = Inl (msg, gw', sys')"
    by (simp add: init_surface_def)
  then show ?thesis using deinit_surface_index by blast
next
  case (Inr st)
  obtain gw0 sys0 where st: "st = (gw0, sys0)" by (cases st)
  from Inr st have g0: "windows sys0 = windows sys \<and> os_windows sys0 = os_windows sys"
    using deinit_surface_index by blast
  from assms Inr st have u: "use_gles b"
    by (auto simp: init_surface_def split: if_splits)
  with assms Inr st have "create_surface p (gw0\<lparr>change_surface := DO_INIT\<rparr>, sys0)
      = Inl (msg, gw', sys')"
    by (auto simp: init_surface_def split: sum.splits)
  from create_surface_index [OF disjI1, OF this] g0 show ?thesis by simp
qed

lemma init_gl_index:
  assumes "init_gl b p (gw, sys) = Inl (msg, gw', sys')"
  shows "windows sys' = windows sys \<and> os_windows sys' = os_windows sys"
proof (cases "use_gles b \<and> egl_get_display_ok p \<and> egl_initialize_ok p \<and>
    egl_choose_config_ok p \<and> egl_create_context_ok p")
  case True
  with assms have "init_surface b p
      (gw, sys\<lparr>egl_initialized := True, egl_contexts := egl_contexts sys + 1\<rparr>)
      (if use_gles b then fst (x_window_position p) else 0)
      (if use_gles b then snd (x_window_position p) else 0)
      (fst (sdl_window_size p)) (snd (sdl_window_size p)) = Inl (msg, gw', sys')"
    by (simp add: init_gl_def init_surface_queried_def)
  from init_surface_index [OF this] show ?thesis by simp
next
  case False
  with assms show ?thesis
    by (auto simp: init_gl_def split: if_splits)
qed

text \<open>What holds of every failed construction: an exception, the index and the SDL windows as before.\<close>

lemma GameWindow_failure_index:
  assumes "GameWindow b p width height fullscreen sys = Inl (msg, sys')"
  shows "windows sys' = windows sys \<and> os_windows sys' = os_windows sys"
proof (cases "windows sys = [] \<and> \<not> sdl_init_ok p")
  case True
  with assms show ?thesis by (auto simp: GameWindow_def Let_def)
next
  case False
  note nf = this
  show ?thesis
  proof (cases "created_window p")
    case None
    with assms nf show ?thesis
      by (auto simp: GameWindow_def Let_def deinit_sdl_def split: if_splits)
  next
    case (Some wid)
    let ?gw = "\<lparr>visible = False,
                foreground = \<not> disable_direct_render b,
                was_foreground = \<not> disable_direct_render b,
                resizing = False,
                window_x = 0, window_y = 0,
                window_width = width, window_height = height,
                close_requested = False,
                change_surface = indeterminate_action p,
                sdl_window = Some wid,
                background_surface = False\<rparr>"
    let ?sys1 = "sys\<lparr>input_managers := input_managers sys + 1\<rparr>"
    let ?sys2 = "if windows ?sys1 = [] then ?sys1\<lparr>sdl_initialized := True\<rparr> else ?sys1"
    let ?sys3 = "?sys2\<lparr>os_windows := wid # os_windows ?sys2\<rparr>"
    let ?sys4 = "if use_gles b
                   then ?sys3\<lparr>dispmanx_displays := dispmanx_displays ?sys3 + 1\<rparr>
                   else ?sys3"
    from assms nf Some obtain gw5 sys5 where
      g: "init_gl b p (?gw, ?sys4) = Inl (msg, gw5, sys5)"
      by (auto simp: GameWindow_def Let_def split: sum.splits if_splits)
    from init_gl_index [OF g] have
      i: "windows sys5 = windows sys" "os_windows sys5 = wid # os_windows sys"
      by (simp_all split: if_splits)
    from assms nf Some g i show ?thesis
      by (auto simp: GameWindow_def Let_def deinit_sdl_def split: if_splits)
  qed
qed


text \<open>
  Claim C7: a failed construction is atomic, every resource acquired on the way being torn
  down. Two runs of the constructor say otherwise. With the window 7 open, a second
  construction whose \<^verbatim>\<open>SDL_CreateWindow\<close> fails calls \<open>deinit_sdl\<close> without the test
  for other windows that the later failure path has: SDL is shut down under the window 7,
  which stays in the index. On the EGL backend, a first construction whose first surface
  build fails at \<^verbatim>\<open>eglMakeCurrent\<close> leaves the dispmanx element, the EGL surface, the
  EGL context and the display connection behind. Either run also leaves its input manager.
\<close>

theorem failed_construction_is_not_atomic:
  "GameWindow gl_build (good_platform\<lparr>created_window := None\<rparr>) 640 480 False one_window_system
     = Inl (''Failed to create SDL window'',
            one_window_system\<lparr>sdl_initialized := False, input_managers := 2\<rparr>) \<and>
   windows (one_window_system\<lparr>sdl_initialized := False, input_managers := 2\<rparr>) = [7] \<and>
   GameWindow gles_build (good_platform\<lparr>egl_make_current_ok := False\<rparr>) 640 480 False
       fresh_system
     = Inl (''Error connecting context to surface'',
            fresh_system\<lparr>input_managers := 1, dispmanx_elements := 1, egl_initialized := True,
                         egl_contexts := 1, egl_surfaces := 1\<rparr>)"
  by (simp add: GameWindow_def init_gl_def init_surface_queried_def init_surface_def
      deinit_surface_def create_surface_def deinit_sdl_def gl_build_def gles_build_def
      good_platform_def one_window_system_def fresh_system_def)

end
